theory Spec2Isabelle
  imports Main "HOL-Library.Word"
begin

unbundle bit_operations_syntax

section \<open>Big integers (ecc\_utils.cpp)\<close>

text \<open>
  \<open>BigInt\<close> wraps a GMP \<open>mpz_t\<close>: an unbounded signed integer, modelled as \<open>int\<close>.
  Each \<open>bigint_*\<close> function is one GMP call; the model gives what that call computes.
\<close>

type_synonym BigInt = int

named_theorems bigint_defs

definition bigint_zero :: BigInt where
  [bigint_defs]: "bigint_zero = 0"

definition bigint_one :: BigInt where
  [bigint_defs]: "bigint_one = 1"

definition bigint_from_int :: "int \<Rightarrow> BigInt" where
  [bigint_defs]: "bigint_from_int v = v"

definition bigint_from_uint64 :: "64 word \<Rightarrow> BigInt" where
  [bigint_defs]: "bigint_from_uint64 v = uint v"

definition bigint_add :: "BigInt \<Rightarrow> BigInt \<Rightarrow> BigInt" where
  [bigint_defs]: "bigint_add a b = a + b"

definition bigint_subtract :: "BigInt \<Rightarrow> BigInt \<Rightarrow> BigInt" where
  [bigint_defs]: "bigint_subtract a b = a - b"

definition bigint_multiply :: "BigInt \<Rightarrow> BigInt \<Rightarrow> BigInt" where
  [bigint_defs]: "bigint_multiply a b = a * b"

text \<open>
  \<open>mpz_mod\<close>: the result is never negative, the sign of the modulus is ignored. A modulus
  of 0 is a division by zero, which ends the program; the function is called with
  \<open>SECP256K1_P\<close>, and in \<open>generate_random_in_range\<close>, where the modulus can be 0 and the
  model gives that outcome a value of its own.
\<close>

definition bigint_mod :: "BigInt \<Rightarrow> BigInt \<Rightarrow> BigInt" where
  [bigint_defs]: "bigint_mod a modulus = a mod \<bar>modulus\<bar>"

text \<open>
  \<open>mpz_invert\<close> is computed here by the extended Euclidean algorithm:
  \<open>xgcd a b = (g, s, t)\<close> with \<open>s * a + t * b = g\<close>.
  \<open>bigint_mod_inverse\<close> returns the inverse in \<open>[0, |modulus|)\<close> when there is one,
  and 0 when \<open>mpz_invert\<close> reports that there is none.
\<close>

function xgcd :: "int \<Rightarrow> int \<Rightarrow> int \<times> int \<times> int" where
  "xgcd a b = (if b = 0 then (a, 1, 0)
     else (case xgcd b (a mod b) of (g, s, t) \<Rightarrow> (g, t, s - (a div b) * t)))"
  by pat_completeness auto
termination
  by (relation "measure (\<lambda>(a, b). nat \<bar>b\<bar>)") (auto simp: abs_mod_less)

declare xgcd.simps [simp del]

definition bigint_mod_inverse :: "BigInt \<Rightarrow> BigInt \<Rightarrow> BigInt" where
  "bigint_mod_inverse a modulus =
     (case xgcd (a mod \<bar>modulus\<bar>) \<bar>modulus\<bar> of
        (g, s, t) \<Rightarrow> if g = 1 then s mod \<bar>modulus\<bar> else 0)"

text \<open>\<open>mpz_mul_2exp\<close> and \<open>mpz_fdiv_q_2exp\<close> (floor division); the shift counts
  the program passes are never negative.\<close>

definition bigint_shift_left :: "BigInt \<Rightarrow> int \<Rightarrow> BigInt" where
  [bigint_defs]: "bigint_shift_left a bits = a * 2 ^ nat bits"

definition bigint_shift_right :: "BigInt \<Rightarrow> int \<Rightarrow> BigInt" where
  [bigint_defs]: "bigint_shift_right a bits = a div 2 ^ nat bits"

definition bigint_compare :: "BigInt \<Rightarrow> BigInt \<Rightarrow> int" where
  "bigint_compare a b = (if a < b then - 1 else if a = b then 0 else 1)"

text \<open>\<open>mpz_sizeinbase (a, 2)\<close>: the number of bits of \<open>|a|\<close>, and 1 for 0.\<close>

function bit_count :: "nat \<Rightarrow> nat" where
  "bit_count m = (if m < 2 then 1 else Suc (bit_count (m div 2)))"
  by pat_completeness auto
termination
  by (relation "measure id") auto

declare bit_count.simps [simp del]

definition bigint_bit_length :: "BigInt \<Rightarrow> int" where
  "bigint_bit_length a = int (bit_count (nat \<bar>a\<bar>))"

subsection \<open>Hexadecimal conversion\<close>

text \<open>
  \<open>mpz_get_str (_, 16, a)\<close> writes lower-case digits without leading zeros, a minus sign
  first when \<open>a\<close> is negative; \<open>bigint_to_hex\<close> then applies \<open>toupper\<close> to every
  character.
\<close>

definition lower_digit :: "nat \<Rightarrow> char" where
  "lower_digit d = ''0123456789abcdef'' ! d"

function digits16 :: "nat \<Rightarrow> string" where
  "digits16 m = (if m < 16 then [lower_digit m] else digits16 (m div 16) @ [lower_digit (m mod 16)])"
  by pat_completeness auto
termination
  by (relation "measure id") auto

declare digits16.simps [simp del]

definition mpz_get_str16 :: "BigInt \<Rightarrow> string" where
  "mpz_get_str16 a = (if a < 0 then CHR ''-'' # digits16 (nat (- a)) else digits16 (nat a))"

definition toupper :: "char \<Rightarrow> char" where
  "toupper c = (let v = (of_char c :: nat) in if 97 \<le> v \<and> v \<le> 122 then char_of (v - 32) else c)"

definition bigint_to_hex :: "BigInt \<Rightarrow> string" where
  "bigint_to_hex a = map toupper (mpz_get_str16 a)"

text \<open>
  The value of one digit character in base 16 (GMP's digit table and \<open>strtol\<close> agree:
  both cases of the letters are accepted).
\<close>

definition digit_value :: "char \<Rightarrow> nat option" where
  "digit_value c = (let v = (of_char c :: nat) in
     if 48 \<le> v \<and> v \<le> 57 then Some (v - 48)
     else if 65 \<le> v \<and> v \<le> 70 then Some (v - 55)
     else if 97 \<le> v \<and> v \<le> 102 then Some (v - 87)
     else None)"

definition is_hex :: "char \<Rightarrow> bool" where
  "is_hex c = (digit_value c \<noteq> None)"

definition isspace :: "char \<Rightarrow> bool" where
  "isspace c = (let v = (of_char c :: nat) in v = 32 \<or> (9 \<le> v \<and> v \<le> 13))"

text \<open>The number written by a string of digits, most significant digit first.\<close>

definition hex_value :: "string \<Rightarrow> nat" where
  "hex_value ds = foldl (\<lambda>acc c. 16 * acc + the (digit_value c)) 0 ds"

text \<open>
  \<open>mpz_set_str (_, str, 16)\<close>: leading white space is skipped, then an optional minus sign;
  the next character must be a digit; after it white space is ignored and every other
  character must be a digit. \<open>None\<close> is the return code -1, which leaves the number as it
  was.
\<close>

definition mpz_set_str16 :: "string \<Rightarrow> BigInt option" where
  "mpz_set_str16 str =
     (let s1 = dropWhile isspace str;
          negative = (s1 \<noteq> [] \<and> hd s1 = CHR ''-'');
          s2 = (if negative then tl s1 else s1)
      in if s2 = [] \<or> \<not> is_hex (hd s2) then None
         else (let ds = filter (\<lambda>c. \<not> isspace c) s2
               in if list_all is_hex ds
                  then Some (if negative then - int (hex_value ds) else int (hex_value ds))
                  else None))"

text \<open>
  \<open>hex_to_bigint\<close> drops a leading \<open>0x\<close> and ignores the return code of
  \<open>mpz_set_str\<close>: after a failed parse the result is the freshly initialised number, 0.
  The string reaches \<open>mpz_set_str\<close> through \<open>c_str\<close>, which ends at the first NUL
  character.
\<close>

definition c_str :: "string \<Rightarrow> string" where
  "c_str s = takeWhile (\<lambda>c. c \<noteq> CHR 0x00) s"

definition hex_to_bigint :: "string \<Rightarrow> BigInt" where
  "hex_to_bigint hex =
     (let clean_hex = (if length hex \<ge> 2 \<and> take 2 hex = ''0x'' then drop 2 hex else hex)
      in case mpz_set_str16 (c_str clean_hex) of None \<Rightarrow> 0 | Some v \<Rightarrow> v)"

text \<open>
  \<open>std::stoull (s, nullptr, 16)\<close> and \<open>std::stoi (s, nullptr, 16)\<close> on the strings the
  solver passes: an optional sign, then the longest run of digits. No digit at all throws
  \<open>invalid_argument\<close>, a value that does not fit throws \<open>out_of_range\<close>; both are
  \<open>None\<close>. A minus sign negates, in \<open>unsigned long long\<close> for \<open>stoull\<close>.
\<close>

definition signed_digits :: "string \<Rightarrow> (bool \<times> nat) option" where
  "signed_digits s =
     (let negative = (s \<noteq> [] \<and> hd s = CHR ''-'');
          s1 = (if s \<noteq> [] \<and> (hd s = CHR ''-'' \<or> hd s = CHR ''+'') then tl s else s);
          ds = takeWhile is_hex s1
      in if ds = [] then None else Some (negative, hex_value ds))"

definition stoull16 :: "string \<Rightarrow> 64 word option" where
  "stoull16 s = (case signed_digits s of None \<Rightarrow> None
     | Some (negative, v) \<Rightarrow>
         if v \<ge> 2 ^ 64 then None
         else Some (if negative then - word_of_nat v else word_of_nat v))"

definition stoi16 :: "string \<Rightarrow> int option" where
  "stoi16 s = (case signed_digits s of None \<Rightarrow> None
     | Some (negative, v) \<Rightarrow>
         (let r = (if negative then - int v else int v)
          in if r < - (2 ^ 31) \<or> r \<ge> 2 ^ 31 then None else Some r))"

section \<open>The curve secp256k1 (ecc\_utils.cpp)\<close>

record ECPoint =
  x :: BigInt
  y :: BigInt
  is_infinity :: bool

text \<open>The two constructors of \<open>ECPoint\<close>: the default one (both coordinates 0, not the
  point at infinity) and the one from coordinates.\<close>

definition ECPoint_default :: ECPoint where
  "ECPoint_default = \<lparr>x = 0, y = 0, is_infinity = False\<rparr>"

definition ECPoint_xy :: "BigInt \<Rightarrow> BigInt \<Rightarrow> ECPoint" where
  "ECPoint_xy x_coord y_coord = \<lparr>x = x_coord, y = y_coord, is_infinity = False\<rparr>"

definition SECP256K1_P :: BigInt where
  "SECP256K1_P = 0xFFFFFFFFFFFFFFFFFFFFFFFFFFFFFFFFFFFFFFFFFFFFFFFFFFFFFFFEFFFFFC2F"

definition SECP256K1_N :: BigInt where
  "SECP256K1_N = 0xFFFFFFFFFFFFFFFFFFFFFFFFFFFFFFFEBAAEDCE6AF48A03BBFD25E8CD0364141"

definition SECP256K1_A :: BigInt where
  "SECP256K1_A = bigint_zero"

definition SECP256K1_B :: BigInt where
  "SECP256K1_B = bigint_from_int 7"

definition SECP256K1_G :: ECPoint where
  "SECP256K1_G = ECPoint_xy
     0x79BE667EF9DCBBAC55A06295CE870B07029BFCDB2DCE28D959F2815B16F81798
     0x483ADA7726A3C4655DA4FBFC0E1108A8FD17B448A68554199C47D08FFB10D4B8"

definition point_double :: "ECPoint \<Rightarrow> ECPoint" where
  "point_double p =
     (if is_infinity p then p
      else if bigint_compare (y p) bigint_zero = 0 then ECPoint_default\<lparr>is_infinity := True\<rparr>
      else (let three = bigint_from_int 3;
                two = bigint_from_int 2;
                x_squared = bigint_mod (bigint_multiply (x p) (x p)) SECP256K1_P;
                numerator = bigint_mod (bigint_multiply three x_squared) SECP256K1_P;
                denominator = bigint_mod (bigint_multiply two (y p)) SECP256K1_P;
                denom_inv = bigint_mod_inverse denominator SECP256K1_P;
                s = bigint_mod (bigint_multiply numerator denom_inv) SECP256K1_P;
                s_squared = bigint_mod (bigint_multiply s s) SECP256K1_P;
                two_x = bigint_mod (bigint_multiply two (x p)) SECP256K1_P;
                x3 = bigint_mod (bigint_subtract s_squared two_x) SECP256K1_P;
                y3 = bigint_mod (bigint_subtract (bigint_multiply s (bigint_subtract (x p) x3)) (y p))
                       SECP256K1_P
            in ECPoint_xy x3 y3))"

definition point_add :: "ECPoint \<Rightarrow> ECPoint \<Rightarrow> ECPoint" where
  "point_add p1 p2 =
     (if is_infinity p1 then p2
      else if is_infinity p2 then p1
      else if bigint_compare (x p1) (x p2) = 0 then
        (if bigint_compare (y p1) (y p2) = 0 then point_double p1
         else ECPoint_default\<lparr>is_infinity := True\<rparr>)
      else (let dy = bigint_subtract (y p2) (y p1);
                dx = bigint_subtract (x p2) (x p1);
                dx_inv = bigint_mod_inverse dx SECP256K1_P;
                s = bigint_mod (bigint_multiply dy dx_inv) SECP256K1_P;
                s_squared = bigint_mod (bigint_multiply s s) SECP256K1_P;
                x3 = bigint_mod (bigint_subtract (bigint_subtract s_squared (x p1)) (x p2)) SECP256K1_P;
                y3 = bigint_mod (bigint_subtract (bigint_multiply s (bigint_subtract (x p1) x3)) (y p1))
                       SECP256K1_P
            in ECPoint_xy x3 y3))"

text \<open>The loop of \<open>point_multiply\<close>: \<open>k_copy\<close> is halved until it is no longer
  positive.\<close>

function point_multiply_loop :: "BigInt \<Rightarrow> ECPoint \<Rightarrow> ECPoint \<Rightarrow> ECPoint" where
  "point_multiply_loop k_copy result addend =
     (if bigint_compare k_copy bigint_zero > 0
      then point_multiply_loop (bigint_shift_right k_copy 1)
             (if odd k_copy then point_add result addend else result)
             (point_double addend)
      else result)"
  by pat_completeness auto
termination
  by (relation "measure (\<lambda>(k, r, a). nat k)")
     (auto simp: bigint_compare_def bigint_defs split: if_splits)

declare point_multiply_loop.simps [simp del]

definition point_multiply :: "BigInt \<Rightarrow> ECPoint \<Rightarrow> ECPoint" where
  "point_multiply k p =
     (if is_infinity p then p
      else point_multiply_loop k (ECPoint_default\<lparr>is_infinity := True\<rparr>) p)"

definition point_equals :: "ECPoint \<Rightarrow> ECPoint \<Rightarrow> bool" where
  "point_equals p1 p2 =
     (if is_infinity p1 \<and> is_infinity p2 then True
      else if is_infinity p1 \<or> is_infinity p2 then False
      else bigint_compare (x p1) (x p2) = 0 \<and> bigint_compare (y p1) (y p2) = 0)"

definition point_is_on_curve :: "ECPoint \<Rightarrow> bool" where
  "point_is_on_curve p =
     (if is_infinity p then True
      else (let y_squared = bigint_mod (bigint_multiply (y p) (y p)) SECP256K1_P;
                x_cubed = bigint_mod (bigint_multiply (bigint_multiply (x p) (x p)) (x p)) SECP256K1_P;
                right_side = bigint_mod (bigint_add x_cubed SECP256K1_B) SECP256K1_P
            in bigint_compare y_squared right_side = 0))"

definition get_generator :: ECPoint where
  "get_generator = SECP256K1_G"

definition get_field_prime :: BigInt where
  "get_field_prime = SECP256K1_P"

definition get_curve_order :: BigInt where
  "get_curve_order = SECP256K1_N"

text \<open>
  \<open>hex_to_point (hex, point)\<close> returns a flag and writes through the reference
  \<open>point\<close>; the model returns the flag and the point as it is left. No call in the body
  throws, so the \<open>catch\<close> branch is never taken.
\<close>

definition hex_to_point :: "string \<Rightarrow> ECPoint \<Rightarrow> bool \<times> ECPoint" where
  "hex_to_point hex point =
     (if length hex < 2 then (False, point)
      else (let clean_hex = (if take 2 hex = ''0x'' then drop 2 hex else hex)
            in if length clean_hex = 66 \<and> clean_hex ! 0 = CHR ''0'' then
                 (True, point\<lparr>x := hex_to_bigint (drop 2 clean_hex),
                               y := bigint_from_int 1,
                               is_infinity := False\<rparr>)
               else if length clean_hex = 128 then
                 (let point' = point\<lparr>x := hex_to_bigint (take 64 clean_hex),
                                       y := hex_to_bigint (drop 64 clean_hex),
                                       is_infinity := False\<rparr>
                  in (point_is_on_curve point', point'))
               else (False, point)))"

definition point_to_hex :: "ECPoint \<Rightarrow> string" where
  "point_to_hex point =
     (if is_infinity point then ''00''
      else (let x_hex = bigint_to_hex (x point);
                y_hex = bigint_to_hex (y point)
            in ''04'' @ replicate (64 - length x_hex) CHR ''0'' @ x_hex
                     @ replicate (64 - length y_hex) CHR ''0'' @ y_hex))"

section \<open>The solver (kangaroo\_solver.h, kangaroo\_solver.cpp)\<close>

text \<open>
  \<open>KangarooStats\<close> is the C structure handed to callers. Its three character arrays hold
  65 bytes each and are filled by \<open>strncpy (_, _, 64)\<close> into zeroed memory, so they hold the
  first 64 characters of the source string. The field names carry the prefix \<open>st_\<close>
  where the solver has a member of the same name.
\<close>

record KangarooStats =
  st_total_jumps :: "64 word"
  st_distinguished_points :: "64 word"
  collisions_found :: "64 word"
  elapsed_time :: "64 word"
  threads_active :: int
  current_range_start :: string
  current_range_end :: string
  found_key :: string
  is_solved :: bool

definition KangarooStats_zero :: KangarooStats where
  "KangarooStats_zero = \<lparr>st_total_jumps = 0, st_distinguished_points = 0, collisions_found = 0,
     elapsed_time = 0, threads_active = 0, current_range_start = [], current_range_end = [],
     found_key = [], is_solved = False\<rparr>"

record DistinguishedPoint =
  point :: ECPoint
  distance :: string
  is_tame :: bool
  timestamp :: "64 word"

text \<open>
  The members of \<open>KangarooSolver\<close>. Atomics are plain fields, the hash map is a map from
  the key string, \<open>worker_threads\<close> lists the identifiers of the threads spawned and not
  yet joined, and \<open>start_time\<close> is a reading of the steady clock in seconds.
\<close>

record KangarooSolver =
  target_point :: ECPoint
  range_start :: BigInt
  range_end :: BigInt
  num_threads :: int
  distinguished_bits :: int
  distinguished_mask :: "64 word"
  running :: bool
  solved :: bool
  total_jumps :: "64 word"
  total_distinguished_points :: "64 word"
  total_collisions :: "64 word"
  worker_threads :: "int list"
  distinguished_points :: "string \<rightharpoonup> DistinguishedPoint"
  jump_distances :: "BigInt list"
  jump_points :: "ECPoint list"
  solution_key :: BigInt
  start_time :: nat

text \<open>The constructor.\<close>

definition KangarooSolver_new :: KangarooSolver where
  "KangarooSolver_new = \<lparr>target_point = ECPoint_default, range_start = 0, range_end = 0,
     num_threads = 1, distinguished_bits = 20, distinguished_mask = 0,
     running = False, solved = False, total_jumps = 0, total_distinguished_points = 0,
     total_collisions = 0, worker_threads = [], distinguished_points = Map.empty,
     jump_distances = [], jump_points = [], solution_key = 0, start_time = 0\<rparr>"

text \<open>\<open>precompute_jumps\<close>: the loop body for index \<open>i\<close>, and the whole table.\<close>

definition jump_distance_at :: "int \<Rightarrow> int \<Rightarrow> BigInt" where
  "jump_distance_at base_jump_bits i =
     (let jump_size = bigint_shift_left bigint_one base_jump_bits;
          variation = bigint_from_int (i + 1)
      in bigint_add jump_size variation)"

definition precompute_jumps :: "KangarooSolver \<Rightarrow> KangarooSolver" where
  "precompute_jumps s =
     (let num_jumps = 256;
          range_size = bigint_subtract (range_end s) (range_start s);
          range_bits = bigint_bit_length range_size;
          base_jump_bits = max 1 (range_bits div 2 - 8);
          ds = map (jump_distance_at base_jump_bits) [0..num_jumps - 1]
      in s\<lparr>jump_distances := ds,
            jump_points := map (\<lambda>d. point_multiply d get_generator) ds\<rparr>)"

text \<open>
  \<open>initialize\<close> returns its flag together with the solver as it leaves it: the target
  point and the range are overwritten before the checks that can still fail.
\<close>

definition initialize ::
  "KangarooSolver \<Rightarrow> string \<Rightarrow> string \<Rightarrow> string \<Rightarrow> int \<Rightarrow> int \<Rightarrow> bool \<times> KangarooSolver" where
  "initialize s pubkey_hex range_start_hex range_end_hex threads dist_bits =
     (case hex_to_point pubkey_hex (target_point s) of
        (ok, tp) \<Rightarrow>
          (let s1 = s\<lparr>target_point := tp\<rparr>
           in if \<not> ok then (False, s1)
              else (let s2 = s1\<lparr>range_start := hex_to_bigint range_start_hex,
                                  range_end := hex_to_bigint range_end_hex\<rparr>
                    in if range_start s2 \<ge> range_end s2 then (False, s2)
                       else (let nt = max 1 (min 64 threads);
                                 db = max 8 (min 32 dist_bits);
                                 s3 = s2\<lparr>num_threads := nt, distinguished_bits := db,
                                         distinguished_mask := push_bit (nat db) 1 - 1\<rparr>
                             in (True, precompute_jumps s3)))))"

text \<open>
  \<open>start\<close> and \<open>stop\<close>, as the statements of the two functions; \<open>now\<close> is the reading
  of the steady clock. What the spawned workers write while they run is described by the
  iteration functions below.
\<close>

definition start :: "KangarooSolver \<Rightarrow> nat \<Rightarrow> bool \<times> KangarooSolver" where
  "start s now =
     (if running s then (False, s)
      else (True, s\<lparr>running := True, solved := False, start_time := now,
                    distinguished_points := Map.empty,
                    total_jumps := 0, total_distinguished_points := 0, total_collisions := 0,
                    worker_threads := [0..num_threads s - 1]\<rparr>))"

definition stop :: "KangarooSolver \<Rightarrow> KangarooSolver" where
  "stop s = (if \<not> running s then s else s\<lparr>running := False, worker_threads := []\<rparr>)"

definition is_running :: "KangarooSolver \<Rightarrow> bool" where
  "is_running s = running s"

definition is_solved_solver :: "KangarooSolver \<Rightarrow> bool" where
  "is_solved_solver s = solved s"

definition get_elapsed_time :: "KangarooSolver \<Rightarrow> nat \<Rightarrow> 64 word" where
  "get_elapsed_time s now = word_of_nat (now - start_time s)"

definition point_to_string :: "ECPoint \<Rightarrow> string" where
  "point_to_string p = bigint_to_hex (x p) @ '':'' @ bigint_to_hex (y p)"

text \<open>
  \<open>is_distinguished\<close> and \<open>get_jump_index\<close>. \<open>None\<close> stands for an exception of
  \<open>stoull\<close> or \<open>stoi\<close> and for the remainder by an empty jump table;
  the remainder is taken in \<open>size_t\<close>, to which the \<open>int\<close> is converted.
\<close>

definition is_distinguished :: "KangarooSolver \<Rightarrow> ECPoint \<Rightarrow> bool option" where
  "is_distinguished s p =
     (let x_hex = bigint_to_hex (x p)
      in if length x_hex \<ge> 8 then
           (let last_chars = drop (length x_hex - 8) x_hex
            in case stoull16 last_chars of None \<Rightarrow> None
               | Some last_bits \<Rightarrow> Some (last_bits AND distinguished_mask s = 0))
         else Some False)"

definition get_jump_index :: "KangarooSolver \<Rightarrow> ECPoint \<Rightarrow> int option" where
  "get_jump_index s p =
     (let x_hex = bigint_to_hex (x p)
      in if length x_hex \<ge> 2 then
           (let last_byte = drop (length x_hex - 2) x_hex
            in case stoi16 last_byte of None \<Rightarrow> None
               | Some v \<Rightarrow>
                   if length (jump_distances s) = 0 then None
                   else Some (uint ((word_of_int v :: 64 word) mod word_of_nat (length (jump_distances s)))))
         else Some 0)"

text \<open>
  \<open>add_distinguished_point\<close>, run under the table's mutex. The table stores the distance
  as the string \<open>bigint_to_hex\<close> wrote; the subtraction takes the number that string
  denotes, read by \<open>hex_to_bigint\<close>. \<open>candidate_key\<close> is the computation of
  \<open>key_diff\<close>, the candidate for the private key. \<open>now\<close> is the steady clock.
\<close>

definition candidate_key :: "bool \<Rightarrow> BigInt \<Rightarrow> DistinguishedPoint \<Rightarrow> BigInt" where
  "candidate_key tame dist existing =
     (if tame then bigint_subtract dist (hex_to_bigint (distance existing))
      else bigint_subtract (hex_to_bigint (distance existing)) dist)"

definition add_distinguished_point ::
  "KangarooSolver \<Rightarrow> ECPoint \<Rightarrow> BigInt \<Rightarrow> bool \<Rightarrow> nat \<Rightarrow> bool \<times> KangarooSolver" where
  "add_distinguished_point s p dist tame now =
     (let point_str = point_to_string p
      in case distinguished_points s point_str of
           Some existing \<Rightarrow>
             if is_tame existing \<noteq> tame then
               (let s1 = s\<lparr>total_collisions := total_collisions s + 1\<rparr>;
                    key_diff = candidate_key tame dist existing;
                    test_point = point_multiply key_diff get_generator
                in if point_equals test_point (target_point s1)
                   then (True, s1\<lparr>solution_key := key_diff\<rparr>)
                   else (False, s1))
             else (False, s)
         | None \<Rightarrow>
             (let dp = \<lparr>point = p, distance = bigint_to_hex dist, is_tame = tame,
                        timestamp = get_elapsed_time s now\<rparr>
              in (False, s\<lparr>distinguished_points := (distinguished_points s)(point_str \<mapsto> dp),
                            total_distinguished_points := total_distinguished_points s + 1\<rparr>)))"

text \<open>
  \<open>generate_random_in_range\<close>; \<open>random_val\<close> is the 64-bit value drawn. \<open>None\<close> is the
  division by zero of \<open>mpz_mod\<close> on an empty range, which ends the program.
\<close>

definition generate_random_in_range :: "BigInt \<Rightarrow> BigInt \<Rightarrow> 64 word \<Rightarrow> BigInt option" where
  "generate_random_in_range lo hi random_val =
     (let range_size = bigint_subtract hi lo
      in if range_size = 0 then None
         else (let offset = bigint_mod (bigint_from_uint64 random_val) range_size
               in Some (bigint_add lo offset)))"

definition get_stats :: "KangarooSolver \<Rightarrow> nat \<Rightarrow> KangarooStats" where
  "get_stats s now =
     (let stats = KangarooStats_zero\<lparr>
            st_total_jumps := total_jumps s,
            st_distinguished_points := total_distinguished_points s,
            collisions_found := total_collisions s,
            elapsed_time := get_elapsed_time s now,
            threads_active := (if running s then num_threads s else 0),
            current_range_start := take 64 (bigint_to_hex (range_start s)),
            current_range_end := take 64 (bigint_to_hex (range_end s)),
            is_solved := solved s\<rparr>
      in if is_solved stats then stats\<lparr>found_key := take 64 (bigint_to_hex (solution_key s))\<rparr>
         else stats)"

subsection \<open>The walkers\<close>

text \<open>
  The local variables of \<open>tame_kangaroo\<close> and \<open>wild_kangaroo\<close>: the current point, the
  accumulated distance (\<open>walked\<close>; \<open>distance\<close> in the source) and the jump counter.
\<close>

record Walker =
  current :: ECPoint
  walked :: BigInt
  local_jumps :: "64 word"

definition report_interval :: "64 word" where
  "report_interval = 10000"

text \<open>
  One pass through the body of the \<open>while\<close> loop of a walker, entered when
  \<open>running \<and> \<not> solved\<close>. The result is the solver, the walker and whether the body
  left the loop by \<open>break\<close>; \<open>None\<close> is an exception, an index outside the jump
  table or a division by zero. \<open>random_val\<close> is the value drawn if the tame walker
  restarts.
\<close>

definition make_jump :: "KangarooSolver \<Rightarrow> Walker \<Rightarrow> (KangarooSolver \<times> Walker) option" where
  "make_jump s w =
     (case get_jump_index s (current w) of None \<Rightarrow> None
      | Some jump_idx \<Rightarrow>
          if jump_idx < 0 \<or> nat jump_idx \<ge> length (jump_points s)
             \<or> nat jump_idx \<ge> length (jump_distances s) then None
          else (let w1 = w\<lparr>current := point_add (current w) (jump_points s ! nat jump_idx),
                           walked := bigint_add (walked w) (jump_distances s ! nat jump_idx),
                           local_jumps := local_jumps w + 1\<rparr>;
                    s1 = (if local_jumps w1 mod report_interval = 0
                          then s\<lparr>total_jumps := total_jumps s + report_interval\<rparr> else s)
                in Some (s1, w1)))"

definition tame_body ::
  "KangarooSolver \<Rightarrow> Walker \<Rightarrow> nat \<Rightarrow> 64 word \<Rightarrow> (KangarooSolver \<times> Walker \<times> bool) option" where
  "tame_body s w now random_val =
     (case is_distinguished s (current w) of None \<Rightarrow> None
      | Some dp \<Rightarrow>
          (case (if dp then add_distinguished_point s (current w) (walked w) True now else (False, s)) of
             (found, s1) \<Rightarrow>
               if found then Some (s1\<lparr>solved := True, solution_key := walked w\<rparr>, w, True)
               else (case make_jump s1 w of None \<Rightarrow> None
                     | Some (s2, w1) \<Rightarrow>
                         if bigint_compare (walked w1) (range_end s2) > 0 then
                           (case generate_random_in_range (range_start s2) (range_end s2) random_val of
                              None \<Rightarrow> None
                            | Some k \<Rightarrow>
                                Some (s2, w1\<lparr>current := point_multiply k get_generator, walked := k\<rparr>,
                                      False))
                         else Some (s2, w1, False))))"

definition wild_body ::
  "KangarooSolver \<Rightarrow> Walker \<Rightarrow> nat \<Rightarrow> (KangarooSolver \<times> Walker \<times> bool) option" where
  "wild_body s w now =
     (case is_distinguished s (current w) of None \<Rightarrow> None
      | Some dp \<Rightarrow>
          (case (if dp then add_distinguished_point s (current w) (walked w) False now else (False, s)) of
             (found, s1) \<Rightarrow>
               if found then Some (s1\<lparr>solved := True, solution_key := walked w\<rparr>, w, True)
               else (case make_jump s1 w of None \<Rightarrow> None
                     | Some (s2, w1) \<Rightarrow>
                         if bigint_bit_length (walked w1) > 80 then
                           Some (s2, w1\<lparr>current := target_point s2, walked := bigint_zero\<rparr>, False)
                         else Some (s2, w1, False))))"

text \<open>The walkers before their first pass (\<open>None\<close> as in \<open>generate_random_in_range\<close>),
  and the statement after the loop.\<close>

definition tame_start :: "KangarooSolver \<Rightarrow> 64 word \<Rightarrow> Walker option" where
  "tame_start s random_val =
     (case generate_random_in_range (range_start s) (range_end s) random_val of
        None \<Rightarrow> None
      | Some k \<Rightarrow> Some \<lparr>current = point_multiply k get_generator, walked = k, local_jumps = 0\<rparr>)"

definition wild_start :: "KangarooSolver \<Rightarrow> Walker" where
  "wild_start s = \<lparr>current = target_point s, walked = bigint_zero, local_jumps = 0\<rparr>"

definition walker_exit :: "KangarooSolver \<Rightarrow> Walker \<Rightarrow> KangarooSolver" where
  "walker_exit s w = s\<lparr>total_jumps := total_jumps s + local_jumps w mod report_interval\<rparr>"

section \<open>Checkpoints (checkpoint.h, checkpoint.cpp)\<close>

text \<open>
  \<open>CheckpointData\<close>; the fields that share a name with a member of the solver carry the
  prefix \<open>cp_\<close>.
\<close>

record CheckpointData =
  cp_version :: string
  cp_timestamp :: "64 word"
  cp_total_jumps :: "64 word"
  cp_distinguished_points_count :: "64 word"
  cp_range_start :: string
  cp_range_end :: string
  cp_num_threads :: int
  cp_distinguished_bits :: int
  dp_points :: "string list"
  dp_distances :: "string list"
  dp_is_tame :: "bool list"
  dp_timestamps :: "64 word list"

text \<open>
  The JSON document of a checkpoint: the eight metadata members and the array
  \<open>distinguished_points\<close> of objects with the members \<open>point\<close>, \<open>distance\<close>,
  \<open>is_tame\<close> and \<open>timestamp\<close>. The JSON library writes and parses it; a file holds
  such a document or something the reader rejects. \<open>can_open\<close> tells whether a file
  can be opened for writing.
\<close>

record json_root =
  j_version :: string
  j_timestamp :: "64 word"
  j_total_jumps :: "64 word"
  j_distinguished_points_count :: "64 word"
  j_range_start :: string
  j_range_end :: string
  j_num_threads :: int
  j_distinguished_bits :: int
  j_distinguished_points :: "(string \<times> string \<times> bool \<times> 64 word) list"

datatype file_content = JsonDocument json_root | Unreadable

record filesystem =
  files :: "string \<rightharpoonup> file_content"
  can_open :: "string \<Rightarrow> bool"

definition get_checkpoint_version :: string where
  "get_checkpoint_version = ''1.0.0''"

text \<open>\<open>write_json_checkpoint\<close>; \<open>None\<close> is a read past the end of one of the three
  arrays that are indexed along with \<open>dp_points\<close>.\<close>

definition write_json_checkpoint ::
  "CheckpointData \<Rightarrow> filesystem \<Rightarrow> string \<Rightarrow> (bool \<times> filesystem) option" where
  "write_json_checkpoint d fs filename =
     (let m = length (dp_points d)
      in if length (dp_distances d) < m \<or> length (dp_is_tame d) < m \<or> length (dp_timestamps d) < m
         then None
         else (let root = \<lparr>j_version = cp_version d, j_timestamp = cp_timestamp d,
                   j_total_jumps = cp_total_jumps d,
                   j_distinguished_points_count = cp_distinguished_points_count d,
                   j_range_start = cp_range_start d, j_range_end = cp_range_end d,
                   j_num_threads = cp_num_threads d,
                   j_distinguished_bits = cp_distinguished_bits d,
                   j_distinguished_points =
                     map (\<lambda>i. (dp_points d ! i, dp_distances d ! i, dp_is_tame d ! i, dp_timestamps d ! i))
                       [0..<m]\<rparr>
               in if \<not> can_open fs filename then Some (False, fs)
                  else Some (True, fs\<lparr>files := (files fs)(filename \<mapsto> JsonDocument root)\<rparr>)))"

definition read_json_checkpoint ::
  "CheckpointData \<Rightarrow> filesystem \<Rightarrow> string \<Rightarrow> bool \<times> CheckpointData" where
  "read_json_checkpoint d fs filename =
     (case files fs filename of
        None \<Rightarrow> (False, d)
      | Some Unreadable \<Rightarrow> (False, d)
      | Some (JsonDocument root) \<Rightarrow>
          (True, d\<lparr>cp_version := j_version root, cp_timestamp := j_timestamp root,
                   cp_total_jumps := j_total_jumps root,
                   cp_distinguished_points_count := j_distinguished_points_count root,
                   cp_range_start := j_range_start root, cp_range_end := j_range_end root,
                   cp_num_threads := j_num_threads root,
                   cp_distinguished_bits := j_distinguished_bits root,
                   dp_points := map fst (j_distinguished_points root),
                   dp_distances := map (\<lambda>e. fst (snd e)) (j_distinguished_points root),
                   dp_is_tame := map (\<lambda>e. fst (snd (snd e))) (j_distinguished_points root),
                   dp_timestamps := map (\<lambda>e. snd (snd (snd e))) (j_distinguished_points root)\<rparr>))"

text \<open>Decimal digits of a number, as the stream writes the time into the backup's name.\<close>

function show_dec :: "nat \<Rightarrow> string" where
  "show_dec m = (if m < 10 then [char_of (48 + m)] else show_dec (m div 10) @ [char_of (48 + m mod 10)])"
  by pat_completeness auto
termination
  by (relation "measure id") auto

declare show_dec.simps [simp del]

definition backup_checkpoint :: "filesystem \<Rightarrow> string \<Rightarrow> nat \<Rightarrow> bool \<times> filesystem" where
  "backup_checkpoint fs original_filename time_t =
     (case files fs original_filename of
        None \<Rightarrow> (False, fs)
      | Some c \<Rightarrow>
          (let backup_filename = original_filename @ ''.backup.'' @ show_dec time_t
           in if can_open fs backup_filename
              then (True, fs\<lparr>files := (files fs)(backup_filename \<mapsto> c)\<rparr>)
              else (False, fs)))"

text \<open>
  A freshly constructed \<open>CheckpointData\<close>: empty strings and vectors; the numbers are not
  initialised by the source and are written before they are read.
\<close>

definition CheckpointData_new :: CheckpointData where
  "CheckpointData_new = \<lparr>cp_version = [], cp_timestamp = 0, cp_total_jumps = 0,
     cp_distinguished_points_count = 0, cp_range_start = [], cp_range_end = [],
     cp_num_threads = 0, cp_distinguished_bits = 0,
     dp_points = [], dp_distances = [], dp_is_tame = [], dp_timestamps = []\<rparr>"

text \<open>
  \<open>CheckpointManager::save_checkpoint\<close> and \<open>load_checkpoint\<close>. \<open>now\<close> is the steady
  clock that \<open>get_stats\<close> reads, \<open>time_t\<close> the system clock in seconds. The data that
  \<open>save_checkpoint\<close> composes is also returned on its own by \<open>checkpoint_of\<close>.
\<close>

definition checkpoint_of :: "KangarooSolver \<Rightarrow> nat \<Rightarrow> nat \<Rightarrow> CheckpointData" where
  "checkpoint_of solver now time_t =
     (let stats = get_stats solver now
      in CheckpointData_new\<lparr>cp_version := get_checkpoint_version,
           cp_timestamp := word_of_nat time_t,
           cp_total_jumps := st_total_jumps stats,
           cp_distinguished_points_count := st_distinguished_points stats,
           cp_range_start := current_range_start stats,
           cp_range_end := current_range_end stats,
           cp_num_threads := threads_active stats,
           cp_distinguished_bits := 20\<rparr>)"

definition save_checkpoint ::
  "KangarooSolver \<Rightarrow> filesystem \<Rightarrow> string \<Rightarrow> nat \<Rightarrow> nat \<Rightarrow> bool \<times> filesystem" where
  "save_checkpoint solver fs filename now time_t =
     (case write_json_checkpoint (checkpoint_of solver now time_t) fs filename of
        None \<Rightarrow> (False, fs)
      | Some (success, fs1) \<Rightarrow>
          if success then (True, snd (backup_checkpoint fs1 filename time_t)) else (False, fs1))"

definition load_checkpoint ::
  "KangarooSolver \<Rightarrow> filesystem \<Rightarrow> string \<Rightarrow> bool \<times> KangarooSolver" where
  "load_checkpoint solver fs filename =
     (if files fs filename = None then (False, solver)
      else (case read_json_checkpoint CheckpointData_new fs filename of
              (success, d) \<Rightarrow> (success, solver)))"

section \<open>The C interface (kangaroo\_solver.cpp)\<close>







section \<open>Concrete points and engine states\<close>

text \<open>
  Multiples of the generator, written \<open>Gk\<close> for \<open>k\<close> times the generator. \<open>G30\<close> and
  \<open>G118\<close> are the two smallest positive multiples whose first coordinate ends in a zero
  byte. \<open>G_minus71\<close> has the first coordinate of 71 times the generator and the negated
  second coordinate.
\<close>

definition G2 :: ECPoint where
  "G2 = ECPoint_xy
     0xC6047F9441ED7D6D3045406E95C07CD85C778E4B8CEF3CA7ABAC09B95C709EE5
     0x1AE168FEA63DC339A3C58419466CEAEEF7F632653266D0E1236431A950CFE52A"

definition G4 :: ECPoint where
  "G4 = ECPoint_xy
     0xE493DBF1C10D80F3581E4904930B1404CC6C13900EE0758474FA94ABE8C4CD13
     0x51ED993EA0D455B75642E2098EA51448D967AE33BFBDFE40CFE97BDC47739922"

definition G6 :: ECPoint where
  "G6 = ECPoint_xy
     0xFFF97BD5755EEEA420453A14355235D382F6472F8568A18B2F057A1460297556
     0xAE12777AACFBB620F3BE96017F45C560DE80F0F6518FE4A03C870C36B075F297"

definition G8 :: ECPoint where
  "G8 = ECPoint_xy
     0x2F01E5E15CCA351DAFF3843FB70F3C2F0A1BDD05E5AF888A67784EF3E10A2A01
     0x5C4DA8A741539949293D082A132D13B4C2E213D6BA5B7617B5DA2CB76CBDE904"

definition G14 :: ECPoint where
  "G14 = ECPoint_xy
     0x499FDF9E895E719CFD64E67F07D38E3226AA7B63678949E6E49B241A60E823E4
     0xCAC2F6C4B54E855190F044E4A7B3D464464279C27A3F95BCC65F40D403A13F5B"

definition G16 :: ECPoint where
  "G16 = ECPoint_xy
     0xE60FCE93B59E9EC53011AABC21C23E97B2A31369B87A5AE9C44EE89E2A6DEC0A
     0xF7E3507399E595929DB99F34F57937101296891E44D23F0BE1F32CCE69616821"

definition G30 :: ECPoint where
  "G30 = ECPoint_xy
     0x6D2B085E9E382ED10B69FC311A03F8641CCFFF21574DE0927513A49D9A688A00
     0xACB82EB93309AD1CC739DDFA33604A83776238AA0BD5FF248DBAC47A17F388FB"

definition G32 :: ECPoint where
  "G32 = ECPoint_xy
     0xD30199D74FB5A22D47B6E054E2F378CEDACFFCB89904A61D75D0DBD407143E65
     0x95038D9D0AE3D5C3B3D6DEC9E98380651F760CC364ED819605B3FF1F24106AB9"

definition G64 :: ECPoint where
  "G64 = ECPoint_xy
     0xBF23C1542D16EAB70B1051EAF832823CFC4C6F1DCDBAFD81E37918E6F874EF8B
     0x5CB3866FC33003737AD928A0BA5392E4C522FC54811E2F784DC37EFE66831D9F"

definition G128 :: ECPoint where
  "G128 = ECPoint_xy
     0x34FF3BE4033F7A06696C3D09F7D1671CBCF55CD700535655647077456769A24E
     0x5D9D11623A236C553F6619D89832098C55DF16C3E8F8B6818491067A73CC2F1A"

definition G5 :: ECPoint where
  "G5 = ECPoint_xy
     0x2F8BDE4D1A07209355B4A7250A5C5128E88B84BDDC619AB7CBA8D569B240EFE4
     0xD8AC222636E5E3D6D4DBA9DDA6C9C426F788271BAB0D6840DCA87D3AA6AC62D6"

definition G13 :: ECPoint where
  "G13 = ECPoint_xy
     0xF28773C2D975288BC7D1D205C3748651B075FBC6610E58CDDEEDDF8F19405AA8
     0x0AB0902E8D880A89758212EB65CDAF473A1A06DA521FA91F29B5CB52DB03ED81"

definition G22 :: ECPoint where
  "G22 = ECPoint_xy
     0x421F5FC9A21065445C96FDB91C0C1E2F2431741C72713B4B99DDCB316F31E9FC
     0x2B90F16D11DABDB616F6DB7E225D1E14743034B37B223115DB20717AD1CD6781"

definition G29 :: ECPoint where
  "G29 = ECPoint_xy
     0xC44D12C7065D812E8ACF28D7CBB19F9011ECD9E9FDF281B0E6A3B5E87D22E7DB
     0x2119A460CE326CDC76C45926C982FDAC0E106E861EDF61C5A039063F0E0E6482"

definition G54 :: ECPoint where
  "G54 = ECPoint_xy
     0x4FDCB8FA639CEE441C8331FD47A2E5FF3447BE24500CA7A5249971067C1D506B
     0x25A5208B674BFD4CAE4D91EB555010AA422CC82409D5079690F3743D00FDAEFB"

definition G61 :: ECPoint where
  "G61 = ECPoint_xy
     0x754E3239F325570CDBBF4A87DEEE8A66B7F2B33479D468FBC1A50743BF56CC18
     0x0673FB86E5BDA30FB3CD0ED304EA49A023EE33D0197A695D0C5D98093C536683"

definition G118 :: ECPoint where
  "G118 = ECPoint_xy
     0xA7C0EA7395D8785253DE84833CCFFDB31DC81F9C32BB84A53EC1775D0FADAE00
     0xA26BECC5EA1819D33F876FF45961A83C19E16B89CE982871F58513F8FB152BCE"

definition G189 :: ECPoint where
  "G189 = ECPoint_xy
     0x6D7EF6B17543F8373C573F44E1F389835D89BCBC6062CED36C82DF83B8FAE859
     0xCD450EC335438986DFEFA10C57FEA9BCC521A0959B2D80BBF74B190DCA712D10"

definition G_minus71 :: ECPoint where
  "G_minus71 = ECPoint_xy
     0x290798C2B6476830DA12FE02287E9E777AA3FBA1C355B17A722D362F84614FBA
     0x1C72589232BBF9DE6772FF4308650DA2A4D63F6B24D5DCEB92FFC501BE6BBDB5"

text \<open>
  An engine for the target \<open>G30\<close> (private key 30) and the range from 0 to \<open>0x100\<close>, with
  two threads and eight distinguished bits: as initialised, as started at clock reading 100,
  after the tame walker that drew the start 30 has published its first point, and after
  \<open>stop\<close>. \<open>pubkey30\<close> is the target in the 128-digit form that \<open>hex_to_point\<close> reads.
\<close>

definition pubkey30 :: string where
  "pubkey30 =
     ''6D2B085E9E382ED10B69FC311A03F8641CCFFF21574DE0927513A49D9A688A00'' @
     ''ACB82EB93309AD1CC739DDFA33604A83776238AA0BD5FF248DBAC47A17F388FB''"

definition engine0 :: KangarooSolver where
  "engine0 = snd (initialize KangarooSolver_new pubkey30 ''0'' ''100'' 2 8)"

definition engine1 :: KangarooSolver where
  "engine1 = snd (start engine0 100)"

definition engine2 :: KangarooSolver where
  "engine2 = snd (add_distinguished_point engine1 G30 30 True 100)"

definition engine3 :: KangarooSolver where
  "engine3 = stop engine2"

text \<open>
  An engine for the target \<open>G_minus71\<close> with the same range, threads and distinguished
  bits: as initialised, as started at clock reading 100, and after the tame walker that
  drew the start 118 has published its first point. \<open>walker_189\<close> is the wild walker after
  its first pass.
\<close>

definition pubkey_minus71 :: string where
  "pubkey_minus71 =
     ''290798C2B6476830DA12FE02287E9E777AA3FBA1C355B17A722D362F84614FBA'' @
     ''1C72589232BBF9DE6772FF4308650DA2A4D63F6B24D5DCEB92FFC501BE6BBDB5''"

definition engine_m0 :: KangarooSolver where
  "engine_m0 = snd (initialize KangarooSolver_new pubkey_minus71 ''0'' ''100'' 2 8)"

definition engine_m1 :: KangarooSolver where
  "engine_m1 = snd (start engine_m0 100)"

definition engine_m2 :: KangarooSolver where
  "engine_m2 = snd (add_distinguished_point engine_m1 G118 118 True 100)"

definition walker_189 :: Walker where
  "walker_189 = \<lparr>current = G118, walked = 189, local_jumps = 1\<rparr>"

text \<open>
  The engine for the target \<open>G30\<close> after the first pass of the wild walker that follows
  the tame publication, and the entries that the tame walkers of the two engines store.
\<close>

definition engine_solved :: KangarooSolver where
  "engine_solved = fst (the (wild_body engine2 (wild_start engine2) 100))"

definition tame_entry :: DistinguishedPoint where
  "tame_entry = \<lparr>point = G30, distance = bigint_to_hex 30, is_tame = True, timestamp = 0\<rparr>"

definition tame_entry_118 :: DistinguishedPoint where
  "tame_entry_118 = \<lparr>point = G118, distance = bigint_to_hex 118, is_tame = True, timestamp = 0\<rparr>"

text \<open>Two points of the curve with a short first coordinate.\<close>

definition point_x1 :: ECPoint where
  "point_x1 = ECPoint_xy 1
     0x4218F20AE6C646B363DB68605822FB14264CA8D2587FDD6FBC750D587E76A7EE"

definition point_x768 :: ECPoint where
  "point_x768 = ECPoint_xy 768
     0xB9648617DDAB72E48ECFF42F27C3F4EA4A75D7A79178802D24D98F1C56664804"

text \<open>A file system without files in which every file can be created.\<close>

definition empty_fs :: filesystem where
  "empty_fs = \<lparr>files = Map.empty, can_open = (\<lambda>_. True)\<rparr>"

text \<open>The stopped engine saved at clock reading 160 and system time 1700000000, and the
  data read back from that file.\<close>

definition saved_fs :: filesystem where
  "saved_fs = snd (save_checkpoint engine3 empty_fs ''checkpoint.json'' 160 1700000000)"

definition loaded_data :: CheckpointData where
  "loaded_data = snd (read_json_checkpoint CheckpointData_new saved_fs ''checkpoint.json'')"

text \<open>The compressed form of the point of the curve with first coordinate 1, whose second
  coordinate is even.\<close>

definition compressed_x1 :: string where
  "compressed_x1 = ''02'' @ replicate 63 CHR ''0'' @ ''1''"

section \<open>Auxiliary notions for the proofs\<close>

text \<open>The upper-case digits of a natural number, and the characters that are digits and
  nothing else to any of the parsers above.\<close>

definition upper_digits :: "nat \<Rightarrow> string" where
  "upper_digits m = map toupper (digits16 m)"

definition plain_hex :: "char \<Rightarrow> bool" where
  "plain_hex c = (is_hex c \<and> c \<noteq> CHR ''-'' \<and> c \<noteq> CHR ''+'' \<and> \<not> isspace c \<and> c \<noteq> CHR ''x'')"

section \<open>Hexadecimal strings\<close>

lemma upt_16: "[0..<16] = [0, 1, 2, 3, 4, 5, 6, 7, 8, 9, 10, 11, 12, 13, 14, 15]"
  by (simp add: upt_rec)

lemma digit_table:
  "list_all (\<lambda>d. digit_value (toupper (lower_digit d)) = Some d
       \<and> toupper (lower_digit d) \<noteq> CHR ''-'' \<and> toupper (lower_digit d) \<noteq> CHR ''+''
       \<and> \<not> isspace (toupper (lower_digit d))) [0..<16]"
  unfolding upt_16
  by (simp add: lower_digit_def toupper_def digit_value_def isspace_def Let_def char_of_def bit_0)

lemma digit_value_upper:
  assumes "d < 16"
  shows "digit_value (toupper (lower_digit d)) = Some d"
  using digit_table assms by (simp add: list_all_iff)

lemma upper_not_sign:
  assumes "d < 16"
  shows "toupper (lower_digit d) \<noteq> CHR ''-'' \<and> toupper (lower_digit d) \<noteq> CHR ''+''
     \<and> \<not> isspace (toupper (lower_digit d))"
  using digit_table assms by (simp add: list_all_iff)

lemma hex_value_snoc:
  "hex_value (ds @ [c]) = 16 * hex_value ds + the (digit_value c)"
  by (simp add: hex_value_def)

lemma hex_value_single: "hex_value [c] = the (digit_value c)"
  by (simp add: hex_value_def)

lemma upper_digits_rec:
  "upper_digits m = (if m < 16 then [toupper (lower_digit m)]
     else upper_digits (m div 16) @ [toupper (lower_digit (m mod 16))])"
  unfolding upper_digits_def by (subst digits16.simps) simp

lemma hex_value_upper_digits: "hex_value (upper_digits m) = m"
proof (induction m rule: digits16.induct)
  case (1 m)
  show ?case
  proof (cases "m < 16")
    case True
    then show ?thesis
      by (subst upper_digits_rec) (simp add: hex_value_single digit_value_upper)
  next
    case False
    then have "hex_value (upper_digits (m div 16)) = m div 16"
      using 1 by simp
    with False show ?thesis
      by (subst upper_digits_rec) (simp add: hex_value_snoc digit_value_upper)
  qed
qed

lemma upper_digits_all_hex: "list_all is_hex (upper_digits m)"
proof (induction m rule: digits16.induct)
  case (1 m)
  show ?case
  proof (cases "m < 16")
    case True
    then show ?thesis
      by (subst upper_digits_rec) (simp add: is_hex_def digit_value_upper)
  next
    case False
    then have "list_all is_hex (upper_digits (m div 16))"
      using 1 by simp
    with False show ?thesis
      by (subst upper_digits_rec) (simp add: is_hex_def digit_value_upper)
  qed
qed

lemma upper_digits_nonempty: "upper_digits m \<noteq> []"
  by (subst upper_digits_rec) simp

lemma length_upper_digits_gt:
  "0 < k \<Longrightarrow> (k < length (upper_digits m)) = (16 ^ k \<le> m)"
proof (induction m arbitrary: k rule: digits16.induct)
  case (1 m)
  show ?case
  proof (cases "m < 16")
    case True
    have "(16::nat) ^ 1 \<le> 16 ^ k"
      using 1(2) by (intro power_increasing) auto
    with True have "\<not> 16 ^ k \<le> m" by simp
    with True 1(2) show ?thesis
      by (subst upper_digits_rec) simp
  next
    case False
    note big = this
    show ?thesis
    proof (cases "k = 1")
      case True
      have "0 < length (upper_digits (m div 16))"
        using upper_digits_nonempty by simp
      with big True show ?thesis
        by (subst upper_digits_rec) simp
    next
      case False
      then obtain j where j: "k = Suc j" "0 < j"
        using 1(2) by (cases k) auto
      have "(j < length (upper_digits (m div 16))) = (16 ^ j \<le> m div 16)"
        using 1(1) [OF big j(2)] .
      moreover have "(16 ^ j \<le> m div 16) = (16 ^ Suc j \<le> m)"
        by (simp add: less_eq_div_iff_mult_less_eq mult.commute)
      ultimately show ?thesis
        using big j by (subst upper_digits_rec) simp
    qed
  qed
qed

lemma hex_value_suffix:
  "k \<le> length (upper_digits m) \<Longrightarrow>
     hex_value (drop (length (upper_digits m) - k) (upper_digits m)) = m mod 16 ^ k"
proof (induction m arbitrary: k rule: digits16.induct)
  case (1 m)
  show ?case
  proof (cases k)
    case 0
    then show ?thesis by (simp add: hex_value_def)
  next
    case (Suc j)
    show ?thesis
    proof (cases "m < 16")
      case True
      then have len: "length (upper_digits m) = 1"
        by (subst upper_digits_rec) simp
      with 1(2) Suc have "j = 0" by simp
      with True Suc len show ?thesis
        using hex_value_upper_digits [of m] by simp
    next
      case False
      let ?hi = "upper_digits (m div 16)"
      have ud: "upper_digits m = ?hi @ [toupper (lower_digit (m mod 16))]"
        using False by (subst upper_digits_rec) simp
      have jl: "j \<le> length ?hi"
        using 1(2) Suc ud by simp
      have ih: "hex_value (drop (length ?hi - j) ?hi) = (m div 16) mod 16 ^ j"
        using 1(1) [OF False jl] .
      have "drop (length (upper_digits m) - k) (upper_digits m)
          = drop (length ?hi - j) ?hi @ [toupper (lower_digit (m mod 16))]"
        using jl by (simp add: ud Suc)
      then have "hex_value (drop (length (upper_digits m) - k) (upper_digits m))
          = 16 * ((m div 16) mod 16 ^ j) + m mod 16"
        by (simp add: hex_value_snoc ih digit_value_upper)
      also have "\<dots> = m mod 16 ^ k"
        by (simp add: Suc mod_mult2_eq)
      finally show ?thesis .
    qed
  qed
qed

lemma upper_digits_all:
  assumes "\<And>d. d < 16 \<Longrightarrow> Q (toupper (lower_digit d))"
  shows "list_all Q (upper_digits m)"
proof (induction m rule: digits16.induct)
  case (1 m)
  show ?case
  proof (cases "m < 16")
    case True
    then show ?thesis
      by (subst upper_digits_rec) (simp add: assms)
  next
    case False
    then have "list_all Q (upper_digits (m div 16))"
      using 1 by simp
    with False show ?thesis
      by (subst upper_digits_rec) (simp add: assms)
  qed
qed

lemma digit_table_x:
  "list_all (\<lambda>d. toupper (lower_digit d) \<noteq> CHR ''x'') [0..<16]"
  unfolding upt_16
  by (simp add: lower_digit_def toupper_def Let_def char_of_def bit_0)

lemma upper_digits_plain: "list_all plain_hex (upper_digits m)"
proof (rule upper_digits_all)
  fix d :: nat
  assume d: "d < 16"
  have "toupper (lower_digit d) \<noteq> CHR ''x''"
    using digit_table_x d by (simp add: list_all_iff)
  then show "plain_hex (toupper (lower_digit d))"
    using digit_value_upper [OF d] upper_not_sign [OF d]
    by (simp add: plain_hex_def is_hex_def)
qed

lemma bigint_to_hex_nonneg: "0 \<le> a \<Longrightarrow> bigint_to_hex a = upper_digits (nat a)"
  by (simp add: bigint_to_hex_def mpz_get_str16_def upper_digits_def)

lemma bigint_to_hex_neg: "a < 0 \<Longrightarrow> bigint_to_hex a = CHR ''-'' # upper_digits (nat (- a))"
  by (simp add: bigint_to_hex_def mpz_get_str16_def upper_digits_def toupper_def Let_def)

text \<open>Strings of plain digits are read back as written.\<close>

lemma plain_dropWhile: "list_all plain_hex s \<Longrightarrow> dropWhile isspace s = s"
  by (cases s) (auto simp: plain_hex_def)

lemma plain_filter: "list_all plain_hex s \<Longrightarrow> filter (\<lambda>c. \<not> isspace c) s = s"
  by (induction s) (auto simp: plain_hex_def)

lemma plain_takeWhile: "list_all plain_hex s \<Longrightarrow> takeWhile is_hex s = s"
  by (induction s) (auto simp: plain_hex_def)

lemma plain_all_hex: "list_all plain_hex s \<Longrightarrow> list_all is_hex s"
  by (induction s) (auto simp: plain_hex_def)

lemma mpz_set_str16_plain:
  assumes "list_all plain_hex s" "s \<noteq> []"
  shows "mpz_set_str16 s = Some (int (hex_value s))"
proof -
  obtain c cs where s: "s = c # cs" using assms(2) by (cases s) auto
  have c: "plain_hex c" using assms(1) s by simp
  show ?thesis
    using assms c plain_all_hex [OF assms(1)]
    by (simp add: mpz_set_str16_def Let_def plain_dropWhile plain_filter)
       (simp add: s plain_hex_def)
qed

lemma mpz_set_str16_minus:
  assumes "list_all plain_hex s" "s \<noteq> []"
  shows "mpz_set_str16 (CHR ''-'' # s) = Some (- int (hex_value s))"
proof -
  obtain c cs where s: "s = c # cs" using assms(2) by (cases s) auto
  have c: "plain_hex c" using assms(1) s by simp
  have sp: "\<not> isspace CHR ''-''" by (simp add: isspace_def)
  show ?thesis
    using assms c plain_all_hex [OF assms(1)] sp
    by (simp add: mpz_set_str16_def Let_def plain_filter)
       (simp add: s plain_hex_def)
qed

lemma nul_not_hex: "\<not> is_hex (CHR 0x00)"
  by (simp add: is_hex_def digit_value_def)

lemma plain_not_nul: "plain_hex c \<Longrightarrow> c \<noteq> CHR 0x00"
  using nul_not_hex by (auto simp: plain_hex_def)

lemma plain_c_str: "list_all plain_hex s \<Longrightarrow> c_str s = s"
  unfolding c_str_def by (induction s) (simp_all add: plain_not_nul)

lemma minus_c_str: "list_all plain_hex s \<Longrightarrow> c_str (CHR ''-'' # s) = CHR ''-'' # s"
  using plain_c_str [of s] by (simp add: c_str_def)

lemma plain_not_0x: "list_all plain_hex s \<Longrightarrow> take 2 s \<noteq> ''0x''"
  by (cases s; cases "tl s") (auto simp: plain_hex_def)

lemma hex_to_bigint_to_hex: "hex_to_bigint (bigint_to_hex a) = a"
proof (cases "0 \<le> a")
  case True
  then show ?thesis
    using upper_digits_plain [of "nat a"] upper_digits_nonempty [of "nat a"]
    by (simp add: hex_to_bigint_def bigint_to_hex_nonneg plain_not_0x mpz_set_str16_plain
        hex_value_upper_digits plain_c_str)
next
  case False
  then have neg: "a < 0" by simp
  show ?thesis
    using upper_digits_plain [of "nat (- a)"] upper_digits_nonempty [of "nat (- a)"] neg
    by (simp add: hex_to_bigint_def bigint_to_hex_neg mpz_set_str16_minus hex_value_upper_digits
        minus_c_str)
qed

lemma plain_drop: "list_all plain_hex s \<Longrightarrow> list_all plain_hex (drop j s)"
  by (simp add: list_all_iff) (meson in_set_dropD)

lemma signed_digits_plain:
  assumes "list_all plain_hex s" "s \<noteq> []"
  shows "signed_digits s = Some (False, hex_value s)"
proof -
  obtain c cs where s: "s = c # cs" using assms(2) by (cases s) auto
  have c: "plain_hex c" using assms(1) s by simp
  then have "hd s \<noteq> CHR ''-''" "hd s \<noteq> CHR ''+''"
    by (simp_all add: s plain_hex_def)
  then show ?thesis
    using assms by (simp add: signed_digits_def Let_def plain_takeWhile)
qed

lemma suffix_value:
  assumes "0 \<le> a" "0 < k" "k \<le> length (bigint_to_hex a)"
  shows "signed_digits (drop (length (bigint_to_hex a) - k) (bigint_to_hex a))
           = Some (False, nat a mod 16 ^ k)"
proof -
  let ?u = "upper_digits (nat a)"
  have h: "bigint_to_hex a = ?u" using assms(1) by (rule bigint_to_hex_nonneg)
  have ne: "drop (length ?u - k) ?u \<noteq> []"
    using assms(2,3) upper_digits_nonempty [of "nat a"] by (simp add: h)
  have "signed_digits (drop (length ?u - k) ?u) = Some (False, hex_value (drop (length ?u - k) ?u))"
    by (rule signed_digits_plain [OF plain_drop [OF upper_digits_plain] ne])
  then show ?thesis
    using assms(3) by (simp add: h hex_value_suffix)
qed

lemma length_hex_ge:
  assumes "0 \<le> a" "0 < k"
  shows "(Suc k \<le> length (bigint_to_hex a)) = (16 ^ k \<le> a)"
proof -
  have "(k < length (upper_digits (nat a))) = (16 ^ k \<le> nat a)"
    using assms(2) by (rule length_upper_digits_gt)
  moreover have "(16 ^ k \<le> nat a) = ((16::int) ^ k \<le> a)"
    using assms(1) by (simp add: le_nat_iff)
  ultimately show ?thesis
    using assms(1) by (simp add: bigint_to_hex_nonneg Suc_le_eq)
qed

section \<open>Distinguished points and jump indices\<close>

lemma word64_and_mask_zero:
  assumes "b \<le> 64"
  shows "((word_of_nat v :: 64 word) AND mask b = 0) = (v mod 2 ^ b = 0)"
proof -
  have "(word_of_nat v :: 64 word) AND mask b = take_bit b (word_of_nat v)"
    by (simp add: take_bit_eq_mask)
  also have "\<dots> = word_of_nat (take_bit b v)"
    by (simp add: take_bit_of_nat)
  finally have eq: "(word_of_nat v :: 64 word) AND mask b = word_of_nat (v mod 2 ^ b)"
    by (simp add: take_bit_eq_mod)
  have "v mod 2 ^ b < 2 ^ b" by simp
  also have "(2::nat) ^ b \<le> 2 ^ 64"
    using assms by (intro power_increasing) auto
  finally have small: "v mod 2 ^ b < 2 ^ 64" .
  have "((word_of_nat (v mod 2 ^ b) :: 64 word) = 0) = (v mod 2 ^ b = 0)"
  proof
    assume "(word_of_nat (v mod 2 ^ b) :: 64 word) = 0"
    then have "unat (word_of_nat (v mod 2 ^ b) :: 64 word) = 0" by simp
    then show "v mod 2 ^ b = 0"
      using small by (simp add: unat_of_nat)
  qed simp
  with eq show ?thesis by simp
qed

lemma one_shifted_mask: "(push_bit b 1 - 1 :: 64 word) = mask b"
  by (simp add: mask_eq_exp_minus_1 push_bit_eq_mult)

lemma nat_mod_zero_int:
  assumes "0 \<le> a"
  shows "(nat a mod 2 ^ b = 0) = (a mod 2 ^ b = 0)"
proof -
  have "int (nat a mod 2 ^ b) = a mod 2 ^ b"
    using assms by (simp add: zmod_int)
  then show ?thesis
    by (metis of_nat_eq_0_iff)
qed

lemma is_distinguished_value:
  assumes "0 \<le> x p" "distinguished_mask s = push_bit b 1 - 1" "b \<le> 32"
  shows "is_distinguished s p = Some (2 ^ 28 \<le> x p \<and> x p mod 2 ^ b = 0)"
proof (cases "8 \<le> length (bigint_to_hex (x p))")
  case True
  define v where "v = nat (x p) mod 16 ^ 8"
  have m: "distinguished_mask s = mask b"
    using assms(2) by (simp only: one_shifted_mask)
  have big: "16 ^ 7 \<le> x p"
    using length_hex_ge [OF assms(1), of 7] True by simp
  have sd: "signed_digits (drop (length (bigint_to_hex (x p)) - 8) (bigint_to_hex (x p)))
              = Some (False, v)"
    unfolding v_def using suffix_value [OF assms(1) _ True] by simp
  have lt: "\<not> 2 ^ 64 \<le> v"
  proof -
    have "v < 16 ^ 8" unfolding v_def by simp
    then show ?thesis by simp
  qed
  have dv: "(2::nat) ^ b dvd 16 ^ 8"
  proof -
    have "(2::nat) ^ b dvd 2 ^ 32"
      using assms(3) by (rule le_imp_power_dvd)
    then show ?thesis by simp
  qed
  have "((word_of_nat v :: 64 word) AND mask b = 0) = (v mod 2 ^ b = 0)"
    using assms(3) by (intro word64_and_mask_zero) simp
  also have "\<dots> = (nat (x p) mod 2 ^ b = 0)"
    unfolding v_def using dv by (simp add: mod_mod_cancel)
  also have "\<dots> = (x p mod 2 ^ b = 0)"
    using assms(1) by (rule nat_mod_zero_int)
  finally have w: "((word_of_nat v :: 64 word) AND mask b = 0) = (x p mod 2 ^ b = 0)" .
  have "is_distinguished s p = Some ((word_of_nat v :: 64 word) AND mask b = 0)"
    using True lt by (simp add: is_distinguished_def Let_def stoull16_def sd m)
  with w big show ?thesis by simp
next
  case False
  then have "\<not> 16 ^ 7 \<le> x p"
    using length_hex_ge [OF assms(1), of 7] by simp
  with False show ?thesis
    by (simp add: is_distinguished_def Let_def)
qed

lemma get_jump_index_value:
  assumes "0 \<le> x p" "length (jump_distances s) = 256"
  shows "get_jump_index s p = Some (if 16 \<le> x p then x p mod 256 else 0)"
proof (cases "2 \<le> length (bigint_to_hex (x p))")
  case True
  define v where "v = nat (x p) mod 16 ^ 2"
  have big: "16 \<le> x p"
    using length_hex_ge [OF assms(1), of 1] True by simp
  have sd: "signed_digits (drop (length (bigint_to_hex (x p)) - 2) (bigint_to_hex (x p)))
              = Some (False, v)"
    unfolding v_def using suffix_value [OF assms(1) _ True] by simp
  have lt: "v < 256" unfolding v_def by simp
  have iv: "int v = x p mod 256"
    unfolding v_def using assms(1) by (simp add: zmod_int)
  have rng: "\<not> (int v < - (2 ^ 31) \<or> 2 ^ 31 \<le> int v)"
    using lt by simp
  have st: "stoi16 (drop (length (bigint_to_hex (x p)) - 2) (bigint_to_hex (x p))) = Some (int v)"
    using rng by (simp add: stoi16_def sd Let_def)
  have "uint ((word_of_int (int v) :: 64 word) mod word_of_nat 256) = int v"
  proof -
    have u: "unat (word_of_nat v :: 64 word) = v"
      using lt by (simp add: unat_of_nat)
    have "unat ((word_of_nat v :: 64 word) mod 256) = v mod 256"
      by (simp add: unat_mod u)
    then have "uint ((word_of_nat v :: 64 word) mod 256) = int v"
      using lt by (simp add: uint_nat)
    then show ?thesis by simp
  qed
  then show ?thesis
    using True big iv by (simp add: get_jump_index_def Let_def st assms(2))
next
  case False
  then have "\<not> 16 \<le> x p"
    using length_hex_ge [OF assms(1), of 1] by simp
  with False show ?thesis
    by (simp add: get_jump_index_def Let_def)
qed

section \<open>Initialisation\<close>

lemma bit_count_bounds:
  "0 < m \<Longrightarrow> 2 ^ (bit_count m - 1) \<le> m \<and> m < 2 ^ bit_count m"
proof (induction m rule: bit_count.induct)
  case (1 m)
  show ?case
  proof (cases "m < 2")
    case True
    with 1(2) have "m = 1" by simp
    then show ?thesis by (subst (1 2) bit_count.simps) simp
  next
    case False
    then have pos: "0 < m div 2" by simp
    have ih: "2 ^ (bit_count (m div 2) - 1) \<le> m div 2 \<and> m div 2 < 2 ^ bit_count (m div 2)"
      using 1(1) [OF False pos] .
    have bc: "bit_count m = Suc (bit_count (m div 2))"
      using False by (subst bit_count.simps) simp
    have ge1: "1 \<le> bit_count (m div 2)"
      by (subst bit_count.simps) simp
    then obtain j where j: "bit_count (m div 2) = Suc j"
      by (cases "bit_count (m div 2)") auto
    have lo: "2 ^ j \<le> m div 2" and hi: "m div 2 < 2 * 2 ^ j"
      using ih j by simp_all
    have "2 * 2 ^ j \<le> m" using lo by arith
    moreover have "m < 2 * (2 * 2 ^ j)" using hi by arith
    ultimately show ?thesis by (simp add: bc j)
  qed
qed

lemma bigint_bit_length_bounds:
  assumes "0 < a"
  shows "2 ^ (nat (bigint_bit_length a) - 1) \<le> a \<and> a < 2 ^ nat (bigint_bit_length a)"
proof -
  have "2 ^ (bit_count (nat a) - 1) \<le> nat a \<and> nat a < 2 ^ bit_count (nat a)"
    using assms by (intro bit_count_bounds) simp
  then have "int (2 ^ (bit_count (nat a) - 1)) \<le> a \<and> a < int (2 ^ bit_count (nat a))"
    using assms by linarith
  then show ?thesis
    using assms by (simp add: bigint_bit_length_def)
qed

lemma initialize_True:
  assumes "initialize s0 pk rs re th db = (True, s)"
  shows "s = precompute_jumps (s0\<lparr>target_point := snd (hex_to_point pk (target_point s0)),
            range_start := hex_to_bigint rs, range_end := hex_to_bigint re,
            num_threads := max 1 (min 64 th), distinguished_bits := max 8 (min 32 db),
            distinguished_mask := push_bit (nat (max 8 (min 32 db))) 1 - 1\<rparr>)"
    and "fst (hex_to_point pk (target_point s0))"
    and "hex_to_bigint rs < hex_to_bigint re"
  using assms
  by (auto simp: initialize_def Let_def split: prod.splits if_splits)

lemma precompute_jumps_fields:
  "target_point (precompute_jumps s) = target_point s"
  "range_start (precompute_jumps s) = range_start s"
  "range_end (precompute_jumps s) = range_end s"
  "num_threads (precompute_jumps s) = num_threads s"
  "distinguished_bits (precompute_jumps s) = distinguished_bits s"
  "distinguished_mask (precompute_jumps s) = distinguished_mask s"
  "running (precompute_jumps s) = running s"
  "solved (precompute_jumps s) = solved s"
  "distinguished_points (precompute_jumps s) = distinguished_points s"
  by (simp_all add: precompute_jumps_def Let_def)

lemma precompute_jumps_table:
  "jump_distances (precompute_jumps s)
     = map (jump_distance_at (max 1 (bigint_bit_length (range_end s - range_start s) div 2 - 8))) [0..255]"
  "jump_points (precompute_jumps s)
     = map (\<lambda>d. point_multiply d get_generator) (jump_distances (precompute_jumps s))"
  by (simp_all add: precompute_jumps_def Let_def bigint_defs)

lemma jump_distance_at_value:
  "jump_distance_at b i = 2 ^ nat b + (i + 1)"
  by (simp add: jump_distance_at_def Let_def bigint_defs)

lemma precompute_jumps_entries:
  assumes "i < 256"
  shows "length (jump_distances (precompute_jumps s)) = 256"
    and "length (jump_points (precompute_jumps s)) = 256"
    and "jump_distances (precompute_jumps s) ! i
           = 2 ^ nat (max 1 (bigint_bit_length (range_end s - range_start s) div 2 - 8)) + (int i + 1)"
    and "jump_points (precompute_jumps s) ! i
           = point_multiply (jump_distances (precompute_jumps s) ! i) get_generator"
proof -
  show l: "length (jump_distances (precompute_jumps s)) = 256"
    by (simp add: precompute_jumps_table)
  show "length (jump_points (precompute_jumps s)) = 256"
    by (simp add: precompute_jumps_table)
  have "[0..255] ! i = 0 + int i"
    using assms by (intro nth_upto) simp
  then show "jump_distances (precompute_jumps s) ! i
           = 2 ^ nat (max 1 (bigint_bit_length (range_end s - range_start s) div 2 - 8)) + (int i + 1)"
    using assms by (simp add: precompute_jumps_table(1) jump_distance_at_value)
  show "jump_points (precompute_jumps s) ! i
           = point_multiply (jump_distances (precompute_jumps s) ! i) get_generator"
    using assms l by (simp add: precompute_jumps_table(2))
qed

section \<open>Scalar multiplication\<close>

subsection \<open>Scalar multiplication, step by step\<close>

lemma loop_done: "k \<le> 0 \<Longrightarrow> point_multiply_loop k r a = r"
  by (subst point_multiply_loop.simps) (simp add: bigint_compare_def bigint_defs)

lemma loop_odd:
  "0 < k \<Longrightarrow> odd k \<Longrightarrow>
     point_multiply_loop k r a = point_multiply_loop (k div 2) (point_add r a) (point_double a)"
  by (subst point_multiply_loop.simps) (simp add: bigint_compare_def bigint_defs)

lemma loop_even:
  "0 < k \<Longrightarrow> even k \<Longrightarrow>
     point_multiply_loop k r a = point_multiply_loop (k div 2) r (point_double a)"
  by (subst point_multiply_loop.simps) (simp add: bigint_compare_def bigint_defs)

lemma point_add_infinity_left: "is_infinity r \<Longrightarrow> point_add r a = a"
  by (simp add: point_add_def)

lemma point_multiply_nonpos:
  "k \<le> 0 \<Longrightarrow> \<not> is_infinity p \<Longrightarrow> point_multiply k p = ECPoint_default\<lparr>is_infinity := True\<rparr>"
  by (simp add: point_multiply_def loop_done)

lemma point_multiply_one: "point_multiply 1 p = p"
proof (cases "is_infinity p")
  case True
  then show ?thesis by (simp add: point_multiply_def)
next
  case False
  have "point_multiply_loop 1 (ECPoint_default\<lparr>is_infinity := True\<rparr>) p
      = point_multiply_loop 0 (point_add (ECPoint_default\<lparr>is_infinity := True\<rparr>) p) (point_double p)"
    by (subst loop_odd) simp_all
  also have "\<dots> = p"
    by (simp add: loop_done point_add_infinity_left)
  finally show ?thesis
    using False by (simp add: point_multiply_def)
qed

lemma G_finite: "\<not> is_infinity SECP256K1_G"
  by (simp add: SECP256K1_G_def ECPoint_xy_def)

lemma double_G: "point_double SECP256K1_G = G2" by code_simp
lemma double_G2: "point_double G2 = G4" by code_simp
lemma double_G4: "point_double G4 = G8" by code_simp
lemma double_G8: "point_double G8 = G16" by code_simp
lemma add_G2_G4: "point_add G2 G4 = G6" by code_simp
lemma add_G6_G8: "point_add G6 G8 = G14" by code_simp
lemma add_G14_G16: "point_add G14 G16 = G30" by code_simp
lemma double_G16: "point_double G16 = G32" by code_simp
lemma double_G32: "point_double G32 = G64" by code_simp
lemma double_G64: "point_double G64 = G128" by code_simp
lemma add_G6_G16: "point_add G6 G16 = G22" by code_simp
lemma add_G22_G32: "point_add G22 G32 = G54" by code_simp
lemma add_G54_G64: "point_add G54 G64 = G118" by code_simp
lemma add_G_G4: "point_add SECP256K1_G G4 = G5" by code_simp
lemma add_G5_G8: "point_add G5 G8 = G13" by code_simp
lemma add_G13_G16: "point_add G13 G16 = G29" by code_simp
lemma add_G29_G32: "point_add G29 G32 = G61" by code_simp
lemma add_G61_G128: "point_add G61 G128 = G189" by code_simp
lemma add_G_minus71_G189: "point_add G_minus71 G189 = G118" by code_simp

lemma point_multiply_30: "point_multiply 30 get_generator = G30"
proof -
  let ?O = "ECPoint_default\<lparr>is_infinity := True\<rparr>"
  have "point_multiply_loop 30 ?O SECP256K1_G = point_multiply_loop 15 ?O G2"
    by (subst loop_even) (simp_all add: double_G)
  also have "\<dots> = point_multiply_loop 7 G2 G4"
    by (subst loop_odd) (simp_all add: double_G2 point_add_infinity_left)
  also have "\<dots> = point_multiply_loop 3 G6 G8"
    by (subst loop_odd) (simp_all add: double_G4 add_G2_G4)
  also have "\<dots> = point_multiply_loop 1 G14 G16"
    by (subst loop_odd) (simp_all add: double_G8 add_G6_G8)
  also have "\<dots> = point_multiply_loop 0 G30 (point_double G16)"
    by (subst loop_odd) (simp_all add: add_G14_G16)
  also have "\<dots> = G30"
    by (simp add: loop_done)
  finally show ?thesis
    using G_finite by (simp add: point_multiply_def get_generator_def)
qed

lemma point_multiply_118: "point_multiply 118 get_generator = G118"
proof -
  let ?O = "ECPoint_default\<lparr>is_infinity := True\<rparr>"
  have "point_multiply_loop 118 ?O SECP256K1_G = point_multiply_loop 59 ?O G2"
    by (subst loop_even) (simp_all add: double_G)
  also have "\<dots> = point_multiply_loop 29 G2 G4"
    by (subst loop_odd) (simp_all add: double_G2 point_add_infinity_left)
  also have "\<dots> = point_multiply_loop 14 G6 G8"
    by (subst loop_odd) (simp_all add: double_G4 add_G2_G4)
  also have "\<dots> = point_multiply_loop 7 G6 G16"
    by (subst loop_even) (simp_all add: double_G8)
  also have "\<dots> = point_multiply_loop 3 G22 G32"
    by (subst loop_odd) (simp_all add: double_G16 add_G6_G16)
  also have "\<dots> = point_multiply_loop 1 G54 G64"
    by (subst loop_odd) (simp_all add: double_G32 add_G22_G32)
  also have "\<dots> = point_multiply_loop 0 G118 (point_double G64)"
    by (subst loop_odd) (simp_all add: add_G54_G64)
  also have "\<dots> = G118"
    by (simp add: loop_done)
  finally show ?thesis
    using G_finite by (simp add: point_multiply_def get_generator_def)
qed

lemma point_multiply_189: "point_multiply 189 get_generator = G189"
proof -
  let ?O = "ECPoint_default\<lparr>is_infinity := True\<rparr>"
  have "point_multiply_loop 189 ?O SECP256K1_G = point_multiply_loop 94 SECP256K1_G G2"
    by (subst loop_odd) (simp_all add: double_G point_add_infinity_left)
  also have "\<dots> = point_multiply_loop 47 SECP256K1_G G4"
    by (subst loop_even) (simp_all add: double_G2)
  also have "\<dots> = point_multiply_loop 23 G5 G8"
    by (subst loop_odd) (simp_all add: double_G4 add_G_G4)
  also have "\<dots> = point_multiply_loop 11 G13 G16"
    by (subst loop_odd) (simp_all add: double_G8 add_G5_G8)
  also have "\<dots> = point_multiply_loop 5 G29 G32"
    by (subst loop_odd) (simp_all add: double_G16 add_G13_G16)
  also have "\<dots> = point_multiply_loop 2 G61 G64"
    by (subst loop_odd) (simp_all add: double_G32 add_G29_G32)
  also have "\<dots> = point_multiply_loop 1 G61 G128"
    by (subst loop_even) (simp_all add: double_G64)
  also have "\<dots> = point_multiply_loop 0 G189 (point_double G128)"
    by (subst loop_odd) (simp_all add: add_G61_G128)
  also have "\<dots> = G189"
    by (simp add: loop_done)
  finally show ?thesis
    using G_finite by (simp add: point_multiply_def get_generator_def)
qed

section \<open>The engine for the target G30\<close>

lemma G30_on_curve: "point_is_on_curve G30"
  by code_simp

lemma hex_x30: "hex_to_bigint (take 64 pubkey30) = x G30"
  by (simp add: pubkey30_def G30_def ECPoint_xy_def hex_to_bigint_def c_str_def mpz_set_str16_def Let_def
      isspace_def is_hex_def digit_value_def hex_value_def)

lemma hex_y30: "hex_to_bigint (drop 64 pubkey30) = y G30"
  by (simp add: pubkey30_def G30_def ECPoint_xy_def hex_to_bigint_def c_str_def mpz_set_str16_def Let_def
      isspace_def is_hex_def digit_value_def hex_value_def)

lemma pubkey30_shape: "length pubkey30 = 128" "take 2 pubkey30 \<noteq> ''0x''"
  by (simp_all add: pubkey30_def)

lemma G30_record: "\<lparr>x = x G30, y = y G30, is_infinity = False\<rparr> = G30"
  by (simp add: G30_def ECPoint_xy_def)

lemma G30_finite: "G30\<lparr>is_infinity := False\<rparr> = G30" "\<not> is_infinity G30"
  by (simp_all add: G30_def ECPoint_xy_def)

lemma hex_to_point_30: "hex_to_point pubkey30 ECPoint_default = (True, G30)"
  by (simp add: hex_to_point_def Let_def pubkey30_shape hex_x30 hex_y30 ECPoint_default_def
      G30_record G30_finite G30_on_curve)

lemma hex_small: "hex_to_bigint ''0'' = 0" "hex_to_bigint ''100'' = 256"
  by (simp_all add: hex_to_bigint_def c_str_def mpz_set_str16_def Let_def
      isspace_def is_hex_def digit_value_def hex_value_def)

lemma init30: "initialize KangarooSolver_new pubkey30 ''0'' ''100'' 2 8 = (True, engine0)"
proof -
  have "fst (initialize KangarooSolver_new pubkey30 ''0'' ''100'' 2 8)"
    by (simp add: initialize_def Let_def KangarooSolver_new_def hex_to_point_30 hex_small)
  then show ?thesis
    by (simp add: engine0_def prod_eq_iff)
qed

lemma engine0_fields:
  "target_point engine0 = G30" "range_start engine0 = 0" "range_end engine0 = 256"
  "num_threads engine0 = 2" "distinguished_bits engine0 = 8"
  "distinguished_mask engine0 = push_bit 8 1 - 1"
  "\<not> running engine0" "\<not> solved engine0"
  "length (jump_distances engine0) = 256"
  by (simp_all add: initialize_True(1) [OF init30] precompute_jumps_fields precompute_jumps_table
      KangarooSolver_new_def hex_to_point_30 hex_small)

lemma engine1_fields:
  "target_point engine1 = G30" "range_start engine1 = 0" "range_end engine1 = 256"
  "num_threads engine1 = 2" "distinguished_bits engine1 = 8"
  "distinguished_mask engine1 = push_bit 8 1 - 1"
  "running engine1" "\<not> solved engine1"
  "length (jump_distances engine1) = 256"
  "distinguished_points engine1 = Map.empty"
  "total_collisions engine1 = 0" "total_distinguished_points engine1 = 0"
  "start_time engine1 = 100"
  by (simp_all add: engine1_def start_def engine0_fields)

subsection \<open>The engine for the target G\_minus71\<close>

lemma G_minus71_on_curve: "point_is_on_curve G_minus71"
  by code_simp

lemma hex_x_minus71: "hex_to_bigint (take 64 pubkey_minus71) = x G_minus71"
  by (simp add: pubkey_minus71_def G_minus71_def ECPoint_xy_def hex_to_bigint_def c_str_def
      mpz_set_str16_def Let_def isspace_def is_hex_def digit_value_def hex_value_def)

lemma hex_y_minus71: "hex_to_bigint (drop 64 pubkey_minus71) = y G_minus71"
  by (simp add: pubkey_minus71_def G_minus71_def ECPoint_xy_def hex_to_bigint_def c_str_def
      mpz_set_str16_def Let_def isspace_def is_hex_def digit_value_def hex_value_def)

lemma pubkey_minus71_shape: "length pubkey_minus71 = 128" "take 2 pubkey_minus71 \<noteq> ''0x''"
  by (simp_all add: pubkey_minus71_def)

lemma G_minus71_record:
  "\<lparr>x = x G_minus71, y = y G_minus71, is_infinity = False\<rparr> = G_minus71"
  "G_minus71\<lparr>is_infinity := False\<rparr> = G_minus71" "\<not> is_infinity G_minus71"
  by (simp_all add: G_minus71_def ECPoint_xy_def)

lemma hex_to_point_minus71: "hex_to_point pubkey_minus71 ECPoint_default = (True, G_minus71)"
  by (simp add: hex_to_point_def Let_def pubkey_minus71_shape hex_x_minus71 hex_y_minus71
      ECPoint_default_def G_minus71_record G_minus71_on_curve)

lemma init_minus71:
  "initialize KangarooSolver_new pubkey_minus71 ''0'' ''100'' 2 8 = (True, engine_m0)"
proof -
  have "fst (initialize KangarooSolver_new pubkey_minus71 ''0'' ''100'' 2 8)"
    by (simp add: initialize_def Let_def KangarooSolver_new_def hex_to_point_minus71 hex_small)
  then show ?thesis
    by (simp add: engine_m0_def prod_eq_iff)
qed

lemma bit_count_256: "bit_count 256 = 9"
  by code_simp

lemma bit_count_189: "bit_count 189 = 8"
  by code_simp

lemma engine_m0_fields:
  "target_point engine_m0 = G_minus71" "range_start engine_m0 = 0" "range_end engine_m0 = 256"
  "num_threads engine_m0 = 2" "distinguished_bits engine_m0 = 8"
  "distinguished_mask engine_m0 = push_bit 8 1 - 1"
  "\<not> running engine_m0" "\<not> solved engine_m0"
  "length (jump_distances engine_m0) = 256"
  by (simp_all add: initialize_True(1) [OF init_minus71] precompute_jumps_fields
      precompute_jumps_table KangarooSolver_new_def hex_to_point_minus71 hex_small)

lemma engine_m0_jump_186:
  "jump_distances engine_m0 ! 186 = 189"
  "jump_points engine_m0 ! 186 = point_multiply 189 get_generator"
  "length (jump_points engine_m0) = 256"
proof -
  define c where "c = KangarooSolver_new\<lparr>
      target_point := snd (hex_to_point pubkey_minus71 (target_point KangarooSolver_new)),
      range_start := hex_to_bigint ''0'', range_end := hex_to_bigint ''100'',
      num_threads := max 1 (min 64 2), distinguished_bits := max 8 (min 32 8),
      distinguished_mask := push_bit (nat (max 8 (min 32 8))) 1 - 1\<rparr>"
  have e: "engine_m0 = precompute_jumps c"
    unfolding c_def by (rule initialize_True(1) [OF init_minus71])
  have r: "bigint_bit_length (range_end c - range_start c) = 9"
    by (simp add: c_def hex_small bigint_bit_length_def bit_count_256)
  show d: "jump_distances engine_m0 ! 186 = 189"
    unfolding e using precompute_jumps_entries(3) [of 186 c] by (simp add: r)
  show "jump_points engine_m0 ! 186 = point_multiply 189 get_generator"
    using precompute_jumps_entries(4) [of 186 c] d unfolding e by simp
  show "length (jump_points engine_m0) = 256"
    unfolding e using precompute_jumps_entries(2) [of 0 c] by simp
qed

lemma engine_m1_fields:
  "target_point engine_m1 = G_minus71" "range_start engine_m1 = 0" "range_end engine_m1 = 256"
  "num_threads engine_m1 = 2" "distinguished_bits engine_m1 = 8"
  "distinguished_mask engine_m1 = push_bit 8 1 - 1"
  "running engine_m1" "\<not> solved engine_m1"
  "length (jump_distances engine_m1) = 256" "length (jump_points engine_m1) = 256"
  "jump_distances engine_m1 ! 186 = 189"
  "jump_points engine_m1 ! 186 = point_multiply 189 get_generator"
  "distinguished_points engine_m1 = Map.empty"
  "total_collisions engine_m1 = 0" "total_distinguished_points engine_m1 = 0"
  "start_time engine_m1 = 100"
  by (simp_all add: engine_m1_def start_def engine_m0_fields engine_m0_jump_186)

section \<open>The claims\<close>

text \<open>
  Claim C6. After a successful \<open>initialize\<close> the jump table has exactly 256 entries; with
  \<open>r\<close> the bit length of \<open>range_end - range_start\<close> (the number with
  \<open>2 ^ (r - 1) \<le> range_end - range_start < 2 ^ r\<close>), entry \<open>i\<close> of \<open>jump_distances\<close> is
  \<open>2 ^ max 1 (r div 2 - 8) + (i + 1)\<close> and entry \<open>i\<close> of \<open>jump_points\<close> is
  \<open>point_multiply\<close> of that distance and the generator, for every \<open>i\<close> below 256.
\<close>

theorem initialize_jump_table:
  assumes "initialize s0 pubkey_hex range_start_hex range_end_hex threads dist_bits = (True, s)"
  shows "length (jump_distances s) = 256 \<and> length (jump_points s) = 256 \<and>
     (\<exists>r. r = bigint_bit_length (range_end s - range_start s)
        \<and> 2 ^ (nat r - 1) \<le> range_end s - range_start s
        \<and> range_end s - range_start s < 2 ^ nat r
        \<and> (\<forall>i<256. jump_distances s ! i = 2 ^ nat (max 1 (r div 2 - 8)) + (int i + 1)
               \<and> jump_points s ! i = point_multiply (jump_distances s ! i) get_generator))"
proof -
  note init = initialize_True [OF assms]
  define c where "c = s0\<lparr>target_point := snd (hex_to_point pubkey_hex (target_point s0)),
            range_start := hex_to_bigint range_start_hex, range_end := hex_to_bigint range_end_hex,
            num_threads := max 1 (min 64 threads), distinguished_bits := max 8 (min 32 dist_bits),
            distinguished_mask := push_bit (nat (max 8 (min 32 dist_bits))) 1 - 1\<rparr>"
  have s: "s = precompute_jumps c"
    using init(1) by (simp add: c_def)
  have rng: "range_end s - range_start s = range_end c - range_start c"
    by (simp add: s precompute_jumps_fields)
  have pos: "0 < range_end c - range_start c"
    using init(3) by (simp add: c_def)
  have b: "2 ^ (nat (bigint_bit_length (range_end c - range_start c)) - 1) \<le> range_end c - range_start c
      \<and> range_end c - range_start c < 2 ^ nat (bigint_bit_length (range_end c - range_start c))"
    using pos by (rule bigint_bit_length_bounds)
  have e: "\<forall>i<256. jump_distances s ! i
             = 2 ^ nat (max 1 (bigint_bit_length (range_end c - range_start c) div 2 - 8)) + (int i + 1)
           \<and> jump_points s ! i = point_multiply (jump_distances s ! i) get_generator"
    unfolding s using precompute_jumps_entries(3,4) by blast
  have l: "length (jump_distances s) = 256 \<and> length (jump_points s) = 256"
    unfolding s using precompute_jumps_entries(1,2) [of 0 c] by simp
  show ?thesis
    using l b e unfolding rng by blast
qed

theorem initialize_jump_table_witness:
  "initialize KangarooSolver_new pubkey30 ''0'' ''100'' 2 8 = (True, engine0)
     \<and> length (jump_distances engine0) = 256 \<and> length (jump_points engine0) = 256
     \<and> jump_distances engine0 ! 0 = 3 \<and> jump_distances engine0 ! 255 = 258
     \<and> jump_points engine0 ! 7 = point_multiply (jump_distances engine0 ! 7) get_generator"
proof -
  have r: "bigint_bit_length (range_end engine0 - range_start engine0) = 9"
    by (simp add: engine0_fields bigint_bit_length_def bit_count_256)
  from initialize_jump_table [OF init30]
  have l: "length (jump_distances engine0) = 256 \<and> length (jump_points engine0) = 256"
    and e: "\<forall>i<256. jump_distances engine0 ! i = 2 ^ nat (max 1 (9 div 2 - 8)) + (int i + 1)
               \<and> jump_points engine0 ! i = point_multiply (jump_distances engine0 ! i) get_generator"
    unfolding r by blast+
  have "jump_distances engine0 ! 0 = 3" "jump_distances engine0 ! 255 = 258"
    "jump_points engine0 ! 7 = point_multiply (jump_distances engine0 ! 7) get_generator"
    using e by simp_all
  with init30 l show ?thesis by simp
qed

lemma point_x768_facts:
  "\<not> is_infinity point_x768" "x point_x768 = 768" "point_is_on_curve point_x768"
  by (simp_all add: point_x768_def ECPoint_xy_def) code_simp

lemma point_x1_facts:
  "\<not> is_infinity point_x1" "x point_x1 = 1" "point_is_on_curve point_x1"
  by (simp_all add: point_x1_def ECPoint_xy_def) code_simp

text \<open>
  Claim C5, as amended. For every point \<open>P\<close> with a first coordinate that is not negative
  and every engine whose mask is the one \<open>initialize\<close> computes for \<open>b\<close> bits, \<open>b\<close> from
  8 to 32: \<open>is_distinguished\<close> returns true if and only if \<open>x(P)\<close> has at least eight
  hexadecimal digits (\<open>2 ^ 28 \<le> x(P)\<close>) and \<open>x(P) mod 2 ^ b = 0\<close>; for a shorter first
  coordinate it returns false.
\<close>

theorem is_distinguished_low_bits:
  assumes "8 \<le> b" and "b \<le> 32"
      and "distinguished_mask s = push_bit (nat b) 1 - 1"
      and "0 \<le> x p"
  shows "is_distinguished s p = Some (2 ^ 28 \<le> x p \<and> x p mod 2 ^ nat b = 0)"
  using assms by (intro is_distinguished_value) simp_all

theorem is_distinguished_low_bits_witness:
  "(8::int) \<le> 8 \<and> (8::int) \<le> 32 \<and> distinguished_mask engine1 = push_bit (nat 8) 1 - 1
     \<and> 0 \<le> x G30 \<and> is_distinguished engine1 G30 = Some True"
proof -
  have m: "distinguished_mask engine1 = push_bit (nat 8) 1 - 1"
    by (simp add: engine1_fields)
  have p: "0 \<le> x G30" by (simp add: G30_def ECPoint_xy_def)
  have "is_distinguished engine1 G30 = Some (2 ^ 28 \<le> x G30 \<and> x G30 mod 2 ^ nat 8 = 0)"
    using is_distinguished_low_bits [of 8 engine1 G30] m p by simp
  moreover have "2 ^ 28 \<le> x G30 \<and> x G30 mod 2 ^ nat 8 = 0"
    by (simp add: G30_def ECPoint_xy_def)
  ultimately show ?thesis using m p by simp
qed

text \<open>
  The claim as stated fails at a point of the curve whose first coordinate is 768: its low
  eight bits are zero, and with eight distinguished bits the engine answers false.
\<close>

theorem is_distinguished_counterexample:
  "\<not> is_infinity point_x768 \<and> point_is_on_curve point_x768
     \<and> distinguished_bits engine1 = 8 \<and> x point_x768 mod 2 ^ 8 = 0
     \<and> is_distinguished engine1 point_x768 = Some False"
proof -
  have "is_distinguished engine1 point_x768
          = Some (2 ^ 28 \<le> x point_x768 \<and> x point_x768 mod 2 ^ 8 = 0)"
    by (rule is_distinguished_value) (simp_all add: engine1_fields point_x768_facts)
  then show ?thesis
    by (simp add: point_x768_facts engine1_fields)
qed

text \<open>
  Claim C7, as amended. With the jump table of 256 entries and a first coordinate that is
  not negative, \<open>get_jump_index\<close> is \<open>x(P) mod 256\<close> when \<open>x(P)\<close> has at least two
  hexadecimal digits (\<open>16 \<le> x(P)\<close>) and 0 otherwise; two points with the same first
  coordinate get the same index.
\<close>

theorem get_jump_index_last_byte:
  assumes "length (jump_distances s) = 256" and "0 \<le> x p"
  shows "get_jump_index s p = Some (if 16 \<le> x p then x p mod 256 else 0)
     \<and> (\<forall>q. x q = x p \<longrightarrow> get_jump_index s q = get_jump_index s p)"
proof -
  have "get_jump_index s p = Some (if 16 \<le> x p then x p mod 256 else 0)"
    using assms(2,1) by (rule get_jump_index_value)
  moreover have "get_jump_index s q = get_jump_index s p" if "x q = x p" for q
    unfolding get_jump_index_def that by (rule refl)
  ultimately show ?thesis by blast
qed

theorem get_jump_index_last_byte_witness:
  "length (jump_distances engine1) = 256 \<and> 0 \<le> x G2
     \<and> get_jump_index engine1 G2 = Some 229
     \<and> get_jump_index engine1 (G2\<lparr>y := 0\<rparr>) = get_jump_index engine1 G2"
proof -
  have l: "length (jump_distances engine1) = 256" by (simp add: engine1_fields)
  have p: "0 \<le> x G2" by (simp add: G2_def ECPoint_xy_def)
  have v: "(if 16 \<le> x G2 then x G2 mod 256 else 0) = 229"
    by (simp add: G2_def ECPoint_xy_def)
  from get_jump_index_last_byte [OF l p]
  have "get_jump_index engine1 G2 = Some 229"
    and "get_jump_index engine1 (G2\<lparr>y := 0\<rparr>) = get_jump_index engine1 G2"
    unfolding v by simp_all
  with l p show ?thesis by simp
qed

text \<open>
  The claim as stated fails at a point of the curve whose first coordinate is 1: the index
  returned is 0, not \<open>1 mod 256\<close>.
\<close>

theorem get_jump_index_counterexample:
  "\<not> is_infinity point_x1 \<and> point_is_on_curve point_x1
     \<and> length (jump_distances engine1) = 256
     \<and> x point_x1 mod 256 = 1 \<and> get_jump_index engine1 point_x1 = Some 0"
proof -
  have "get_jump_index engine1 point_x1
          = Some (if 16 \<le> x point_x1 then x point_x1 mod 256 else 0)"
    by (rule get_jump_index_value) (simp_all add: engine1_fields point_x1_facts)
  then show ?thesis
    by (simp add: point_x1_facts engine1_fields)
qed

text \<open>
  Claim C8. \<open>start\<close> on a running engine returns false and leaves the engine as it is.
  On an engine that is not running it returns true, sets \<open>running\<close>, clears \<open>solved\<close>, the
  table of distinguished points and the three counters, records the clock, spawns
  \<open>num_threads\<close> workers and keeps the configuration. After \<open>stop\<close> the engine is not
  running and has no worker left to join; \<open>stop\<close> on an engine that is not running
  changes nothing, so a second \<open>stop\<close> has no effect.
\<close>

theorem start_stop_lifecycle:
  "(running s \<longrightarrow> start s now = (False, s))
   \<and> (\<not> running s \<longrightarrow>
        fst (start s now) \<and> is_running (snd (start s now)) \<and> \<not> solved (snd (start s now))
        \<and> distinguished_points (snd (start s now)) = Map.empty
        \<and> total_jumps (snd (start s now)) = 0
        \<and> total_distinguished_points (snd (start s now)) = 0
        \<and> total_collisions (snd (start s now)) = 0
        \<and> start_time (snd (start s now)) = now
        \<and> int (length (worker_threads (snd (start s now)))) = max 0 (num_threads s)
        \<and> target_point (snd (start s now)) = target_point s
        \<and> range_start (snd (start s now)) = range_start s
        \<and> range_end (snd (start s now)) = range_end s
        \<and> num_threads (snd (start s now)) = num_threads s
        \<and> distinguished_bits (snd (start s now)) = distinguished_bits s
        \<and> distinguished_mask (snd (start s now)) = distinguished_mask s
        \<and> jump_distances (snd (start s now)) = jump_distances s
        \<and> jump_points (snd (start s now)) = jump_points s)
   \<and> \<not> is_running (stop s)
   \<and> (running s \<longrightarrow> worker_threads (stop s) = [])
   \<and> (\<not> running s \<longrightarrow> stop s = s)
   \<and> stop (stop s) = stop s"
  by (simp add: start_def stop_def is_running_def)

theorem start_stop_lifecycle_witness:
  "running engine1 \<and> start engine1 200 = (False, engine1)
   \<and> \<not> running engine0 \<and> fst (start engine0 100) \<and> is_running (snd (start engine0 100))
   \<and> length (worker_threads (snd (start engine0 100))) = 2
   \<and> \<not> is_running (stop engine1) \<and> worker_threads (stop engine1) = []
   \<and> stop engine0 = engine0 \<and> stop (stop engine1) = stop engine1"
  using start_stop_lifecycle [of engine1 200] start_stop_lifecycle [of engine0 100]
  by (simp add: engine0_fields engine1_fields)



lemma collision_step:
  assumes "distinguished_points s (point_to_string p) = Some e" and "is_tame e \<noteq> tame"
  shows "add_distinguished_point s p d tame now =
     (let k = candidate_key tame d e;
          s1 = s\<lparr>total_collisions := total_collisions s + 1\<rparr>
      in if point_equals (point_multiply k get_generator) (target_point s)
         then (True, s1\<lparr>solution_key := k\<rparr>) else (False, s1))"
  using assms by (simp add: add_distinguished_point_def Let_def)

lemma candidate_key_value:
  assumes "distance e = bigint_to_hex d0"
  shows "candidate_key tame d e = (if tame then d - d0 else d0 - d)"
  by (simp add: candidate_key_def bigint_defs assms hex_to_bigint_to_hex)

lemma publish_new:
  assumes "distinguished_points s (point_to_string p) = None"
  shows "add_distinguished_point s p d tame now =
     (False, s\<lparr>distinguished_points := (distinguished_points s)(point_to_string p \<mapsto>
                  \<lparr>point = p, distance = bigint_to_hex d, is_tame = tame,
                   timestamp = get_elapsed_time s now\<rparr>),
               total_distinguished_points := total_distinguished_points s + 1\<rparr>)"
  using assms by (simp add: add_distinguished_point_def Let_def)

lemma engine2_eq:
  "engine2 = engine1\<lparr>distinguished_points := [point_to_string G30 \<mapsto> tame_entry],
                      total_distinguished_points := 1\<rparr>"
  by (simp add: engine2_def publish_new engine1_fields tame_entry_def get_elapsed_time_def)

lemma point_equals_G30: "point_equals G30 G30"
  "\<not> point_equals (ECPoint_default\<lparr>is_infinity := True\<rparr>) G30"
  by (simp_all add: point_equals_def G30_finite bigint_compare_def)

text \<open>
  Claim C2, as amended. When \<open>add_distinguished_point\<close> finds an entry of the opposite
  kind under the key of the point, and that entry was stored with the distance \<open>d0\<close>, the
  candidate key is the integer \<open>d_T - d_W\<close> (tame distance minus wild distance, not reduced
  modulo the curve order). The call counts a collision and returns true exactly if
  \<open>point_multiply\<close> of the candidate and the generator equals the target; it then stores
  the candidate as the solution. Otherwise it returns false and keeps the solution as it
  was. The table is not changed in either case.
\<close>

theorem collision_candidate_key:
  assumes "distinguished_points s (point_to_string p) = Some e"
      and "distance e = bigint_to_hex d0"
      and "is_tame e \<noteq> tame"
  shows "fst (add_distinguished_point s p d tame now)
           = point_equals (point_multiply (if tame then d - d0 else d0 - d) get_generator) (target_point s)
     \<and> (fst (add_distinguished_point s p d tame now) \<longrightarrow>
          solution_key (snd (add_distinguished_point s p d tame now)) = (if tame then d - d0 else d0 - d))
     \<and> (\<not> fst (add_distinguished_point s p d tame now) \<longrightarrow>
          solution_key (snd (add_distinguished_point s p d tame now)) = solution_key s)
     \<and> total_collisions (snd (add_distinguished_point s p d tame now)) = total_collisions s + 1
     \<and> distinguished_points (snd (add_distinguished_point s p d tame now)) = distinguished_points s"
  by (simp add: collision_step [OF assms(1,3)] candidate_key_value [OF assms(2)] Let_def)

theorem collision_candidate_key_witness:
  "distinguished_points engine2 (point_to_string G30) = Some tame_entry
     \<and> distance tame_entry = bigint_to_hex 30
     \<and> is_tame tame_entry \<noteq> False
     \<and> fst (add_distinguished_point engine2 G30 0 False 100)
     \<and> solution_key (snd (add_distinguished_point engine2 G30 0 False 100)) = 30
     \<and> total_collisions (snd (add_distinguished_point engine2 G30 0 False 100)) = 1"
proof -
  have a: "distinguished_points engine2 (point_to_string G30) = Some tame_entry"
    by (simp add: engine2_eq)
  have b: "distance tame_entry = bigint_to_hex 30" "is_tame tame_entry \<noteq> False"
    by (simp_all add: tame_entry_def)
  have t: "target_point engine2 = G30" "total_collisions engine2 = 0"
    by (simp_all add: engine2_eq engine1_fields)
  show ?thesis
    using collision_candidate_key [OF a b, of 0 100] a b
    by (simp add: t point_multiply_30 point_equals_G30)
qed

lemma engine_m2_eq:
  "engine_m2 = engine_m1\<lparr>distinguished_points := [point_to_string G118 \<mapsto> tame_entry_118],
                        total_distinguished_points := 1\<rparr>"
  by (simp add: engine_m2_def publish_new engine_m1_fields tame_entry_118_def get_elapsed_time_def)

lemma engine_m2_fields:
  "target_point engine_m2 = G_minus71" "distinguished_mask engine_m2 = push_bit 8 1 - 1"
  "length (jump_distances engine_m2) = 256" "length (jump_points engine_m2) = 256"
  "jump_distances engine_m2 ! 186 = 189"
  "jump_points engine_m2 ! 186 = point_multiply 189 get_generator"
  "distinguished_points engine_m2 (point_to_string G118) = Some tame_entry_118"
  by (simp_all add: engine_m2_eq engine_m1_fields)

lemma G118_distinguished:
  assumes "distinguished_mask s = push_bit 8 1 - 1"
  shows "is_distinguished s G118 = Some True"
proof -
  have "is_distinguished s G118 = Some (2 ^ 28 \<le> x G118 \<and> x G118 mod 2 ^ 8 = 0)"
    using assms by (intro is_distinguished_value) (simp_all add: G118_def ECPoint_xy_def)
  then show ?thesis
    by (simp add: G118_def ECPoint_xy_def)
qed

lemma G_minus71_not_distinguished:
  assumes "distinguished_mask s = push_bit 8 1 - 1"
  shows "is_distinguished s G_minus71 = Some False"
proof -
  have "is_distinguished s G_minus71 = Some (2 ^ 28 \<le> x G_minus71 \<and> x G_minus71 mod 2 ^ 8 = 0)"
    using assms by (intro is_distinguished_value) (simp_all add: G_minus71_def ECPoint_xy_def)
  then show ?thesis
    by (simp add: G_minus71_def ECPoint_xy_def)
qed

lemma G_minus71_jump_index:
  assumes "length (jump_distances s) = 256"
  shows "get_jump_index s G_minus71 = Some 186"
proof -
  have "get_jump_index s G_minus71 = Some (if 16 \<le> x G_minus71 then x G_minus71 mod 256 else 0)"
    using assms by (intro get_jump_index_value) (simp_all add: G_minus71_def ECPoint_xy_def)
  then show ?thesis
    by (simp add: G_minus71_def ECPoint_xy_def)
qed

lemma tame_start_118:
  "tame_start engine_m1 118 = Some \<lparr>current = G118, walked = 118, local_jumps = 0\<rparr>"
  by (simp add: tame_start_def generate_random_in_range_def Let_def bigint_defs engine_m1_fields
      point_multiply_118)

lemma wild_first_jump:
  "make_jump engine_m2 (wild_start engine_m2) = Some (engine_m2, walker_189)"
proof -
  have w: "wild_start engine_m2 = \<lparr>current = G_minus71, walked = 0, local_jumps = 0\<rparr>"
    by (simp add: wild_start_def engine_m2_fields bigint_defs)
  have j: "get_jump_index engine_m2 G_minus71 = Some 186"
    by (rule G_minus71_jump_index) (simp add: engine_m2_fields)
  have r: "(1 :: 64 word) mod report_interval \<noteq> 0"
    by (simp add: report_interval_def)
  show ?thesis
    using r
    by (simp add: make_jump_def w j engine_m2_fields Let_def bigint_defs point_multiply_189
        add_G_minus71_G189 walker_189_def)
qed

lemma wild_pass_to_G118:
  "wild_body engine_m2 (wild_start engine_m2) 100 = Some (engine_m2, walker_189, False)"
proof -
  have w: "current (wild_start engine_m2) = G_minus71"
    by (simp add: wild_start_def engine_m2_fields)
  have d: "is_distinguished engine_m2 G_minus71 = Some False"
    by (rule G_minus71_not_distinguished) (simp add: engine_m2_fields)
  have b: "\<not> bigint_bit_length (walked walker_189) > 80"
    by (simp add: walker_189_def bigint_bit_length_def bit_count_189)
  show ?thesis
    using b by (simp add: wild_body_def w d wild_first_jump)
qed

lemma minus71_mod_order: "(118 - 189) mod SECP256K1_N = SECP256K1_N - 71"
proof -
  have "(- 71 + SECP256K1_N) mod SECP256K1_N = - 71 mod SECP256K1_N"
    by (rule mod_add_self2)
  moreover have "(- 71 + SECP256K1_N) mod SECP256K1_N = - 71 + SECP256K1_N"
    by (rule mod_pos_pos_trivial) (simp_all add: SECP256K1_N_def)
  ultimately show ?thesis by simp
qed

lemma point_equals_G_minus71:
  "\<not> point_equals (ECPoint_default\<lparr>is_infinity := True\<rparr>) G_minus71"
  by (simp add: point_equals_def G_minus71_record)

text \<open>
  The claim as stated fails at a collision whose tame distance is below the wild
  distance. The target is \<open>G_minus71\<close>, the range goes from 0 to \<open>0x100\<close>. The tame
  walker draws the start 118, stands on the distinguished point \<open>G118\<close> and publishes it
  with distance 118. The wild walker starts on the target, takes the jump of index 186 and
  distance 189 and arrives at \<open>G118\<close>: the target plus 189 times the generator is 118 times
  the generator. On its next pass it publishes \<open>G118\<close> with distance 189. The candidate
  key that the call computes is \<open>118 - 189 = - 71\<close>, not \<open>(118 - 189) mod n = n - 71\<close>;
  \<open>point_multiply\<close> of \<open>- 71\<close> is the point at infinity, and the call returns false.
\<close>

theorem collision_candidate_key_counterexample:
  "initialize KangarooSolver_new pubkey_minus71 ''0'' ''100'' 2 8 = (True, engine_m0)
     \<and> target_point engine_m2 = G_minus71
     \<and> tame_start engine_m1 118 = Some \<lparr>current = G118, walked = 118, local_jumps = 0\<rparr>
     \<and> is_distinguished engine_m1 G118 = Some True
     \<and> distinguished_points engine_m2 (point_to_string G118) = Some tame_entry_118
     \<and> distance tame_entry_118 = bigint_to_hex 118 \<and> is_tame tame_entry_118
     \<and> wild_body engine_m2 (wild_start engine_m2) 100 = Some (engine_m2, walker_189, False)
     \<and> current walker_189 = G118 \<and> walked walker_189 = 189
     \<and> is_distinguished engine_m2 (current walker_189) = Some True
     \<and> point_add (target_point engine_m2) (point_multiply 189 get_generator)
          = point_multiply 118 get_generator
     \<and> candidate_key False (walked walker_189) tame_entry_118 = - 71
     \<and> (118 - 189) mod SECP256K1_N = SECP256K1_N - 71
     \<and> candidate_key False (walked walker_189) tame_entry_118 \<noteq> (118 - 189) mod SECP256K1_N
     \<and> point_multiply (- 71) get_generator = ECPoint_default\<lparr>is_infinity := True\<rparr>
     \<and> \<not> fst (add_distinguished_point engine_m2 (current walker_189) (walked walker_189) False 100)"
proof -
  have e: "distance tame_entry_118 = bigint_to_hex 118" "is_tame tame_entry_118"
    by (simp_all add: tame_entry_118_def)
  have wk: "current walker_189 = G118" "walked walker_189 = 189"
    by (simp_all add: walker_189_def)
  have d1: "is_distinguished engine_m1 G118 = Some True"
    by (rule G118_distinguished) (simp add: engine_m1_fields)
  have d2: "is_distinguished engine_m2 (current walker_189) = Some True"
    unfolding wk by (rule G118_distinguished) (simp add: engine_m2_fields)
  have col: "point_add (target_point engine_m2) (point_multiply 189 get_generator)
          = point_multiply 118 get_generator"
    by (simp add: engine_m2_fields point_multiply_189 point_multiply_118 add_G_minus71_G189)
  have k: "candidate_key False (walked walker_189) tame_entry_118 = - 71"
    by (simp add: candidate_key_value [OF e(1)] wk)
  have ne: "(- 71 :: int) \<noteq> SECP256K1_N - 71"
    by (simp add: SECP256K1_N_def)
  have m: "point_multiply (- 71) get_generator = ECPoint_default\<lparr>is_infinity := True\<rparr>"
    using G_finite by (simp add: point_multiply_nonpos get_generator_def)
  have a: "distinguished_points engine_m2 (point_to_string (current walker_189)) = Some tame_entry_118"
    by (simp add: wk engine_m2_fields)
  have t: "is_tame tame_entry_118 \<noteq> False"
    by (simp add: e)
  have f: "\<not> fst (add_distinguished_point engine_m2 (current walker_189) (walked walker_189) False 100)"
    by (simp add: collision_step [OF a t] k m Let_def engine_m2_fields point_equals_G_minus71)
  show ?thesis
    using init_minus71 tame_start_118 d1 d2 e wk wild_pass_to_G118 col k minus71_mod_order ne m f
    by (simp add: engine_m2_fields)
qed

lemma hex_of_zero: "bigint_to_hex 0 = ''0''"
  by (simp add: bigint_to_hex_def mpz_get_str16_def digits16.simps lower_digit_def toupper_def)

lemma engine2_fields:
  "target_point engine2 = G30" "distinguished_mask engine2 = push_bit 8 1 - 1"
  "running engine2" "\<not> solved engine2" "range_start engine2 = 0" "range_end engine2 = 256"
  "num_threads engine2 = 2" "distinguished_bits engine2 = 8" "start_time engine2 = 100"
  "total_distinguished_points engine2 = 1" "total_collisions engine2 = 0"
  by (simp_all add: engine2_eq engine1_fields)

lemma G30_distinguished:
  assumes "distinguished_mask s = push_bit 8 1 - 1"
  shows "is_distinguished s G30 = Some True"
proof -
  have "is_distinguished s G30 = Some (2 ^ 28 \<le> x G30 \<and> x G30 mod 2 ^ 8 = 0)"
    using assms by (intro is_distinguished_value) (simp_all add: G30_def ECPoint_xy_def)
  then show ?thesis
    by (simp add: G30_def ECPoint_xy_def)
qed

lemma tame_start_30:
  "tame_start engine1 30 = Some \<lparr>current = G30, walked = 30, local_jumps = 0\<rparr>"
  by (simp add: tame_start_def generate_random_in_range_def Let_def bigint_defs engine1_fields
      point_multiply_30)

lemma wild_publish:
  "add_distinguished_point engine2 G30 0 False 100
     = (True, engine2\<lparr>total_collisions := 1, solution_key := 30\<rparr>)"
proof -
  have a: "distinguished_points engine2 (point_to_string G30) = Some tame_entry"
    by (simp add: engine2_eq)
  have b: "is_tame tame_entry \<noteq> False" by (simp add: tame_entry_def)
  have c: "candidate_key False 0 tame_entry = 30"
    by (simp add: candidate_key_value tame_entry_def)
  show ?thesis
    by (simp add: collision_step [OF a b] c Let_def engine2_fields point_multiply_30 point_equals_G30)
qed

lemma wild_first_pass:
  "wild_body engine2 (wild_start engine2) 100
     = Some (engine2\<lparr>total_collisions := 1, solution_key := 0, solved := True\<rparr>,
             wild_start engine2, True)"
proof -
  have w: "current (wild_start engine2) = G30" "walked (wild_start engine2) = 0"
    by (simp_all add: wild_start_def engine2_fields bigint_defs)
  have d: "is_distinguished engine2 G30 = Some True"
    by (rule G30_distinguished) (simp add: engine2_fields)
  show ?thesis
    by (simp add: wild_body_def w d wild_publish)
qed

text \<open>
  Claim C1, at the failing input. The engine for the target \<open>G30\<close> and the range from 0
  to \<open>0x100\<close> is started; the tame walker draws the start 30, stands on the distinguished
  point \<open>G30\<close> and publishes it. The wild walker starts on the target with distance 0 and
  publishes the same point: \<open>add_distinguished_point\<close> verifies and stores the key 30 and
  returns true, and the walker then overwrites the solution with its own distance. The
  engine is solved with \<open>solution_key = 0\<close> and reports \<open>found_key = "0"\<close>, and
  \<open>point_multiply\<close> of that key and the generator is not the target.
\<close>

theorem solved_with_wrong_key:
  "tame_start engine1 30 = Some \<lparr>current = G30, walked = 30, local_jumps = 0\<rparr>
   \<and> is_distinguished engine1 G30 = Some True
   \<and> wild_start engine2 = \<lparr>current = G30, walked = 0, local_jumps = 0\<rparr>
   \<and> add_distinguished_point engine2 G30 0 False 100
        = (True, engine2\<lparr>total_collisions := 1, solution_key := 30\<rparr>)
   \<and> point_equals (point_multiply 30 get_generator) (target_point engine2)
   \<and> wild_body engine2 (wild_start engine2) 100 = Some (engine_solved, wild_start engine2, True)
   \<and> solved engine_solved
   \<and> solution_key engine_solved = 0
   \<and> \<not> point_equals (point_multiply (solution_key engine_solved) get_generator)
          (target_point engine_solved)
   \<and> is_solved (get_stats engine_solved 100)
   \<and> found_key (get_stats engine_solved 100) = ''0''"
proof -
  have e: "engine_solved = engine2\<lparr>total_collisions := 1, solution_key := 0, solved := True\<rparr>"
    by (simp add: engine_solved_def wild_first_pass)
  have m: "point_multiply 0 get_generator = ECPoint_default\<lparr>is_infinity := True\<rparr>"
    using G_finite by (simp add: point_multiply_nonpos get_generator_def)
  have d: "is_distinguished engine1 G30 = Some True"
    by (rule G30_distinguished) (simp add: engine1_fields)
  have w: "wild_start engine2 = \<lparr>current = G30, walked = 0, local_jumps = 0\<rparr>"
    by (simp add: wild_start_def engine2_fields bigint_defs)
  have k: "found_key (get_stats engine_solved 100) = ''0''" "is_solved (get_stats engine_solved 100)"
    by (simp_all add: e get_stats_def Let_def KangarooStats_zero_def hex_of_zero)
  show ?thesis
    using tame_start_30 d w wild_publish wild_first_pass k
    by (simp add: e m engine2_fields point_multiply_30 point_equals_G30)
qed

lemma length_hex_le:
  assumes "0 \<le> a" "a < 2 ^ 256"
  shows "length (bigint_to_hex a) \<le> 64"
proof -
  have "(Suc 64 \<le> length (bigint_to_hex a)) = (16 ^ 64 \<le> a)"
    using assms(1) by (intro length_hex_ge) simp_all
  moreover have "\<not> 16 ^ 64 \<le> a"
    using assms(2) by simp
  ultimately show ?thesis by simp
qed

lemma point_to_hex_shape:
  assumes "\<not> is_infinity p" "0 \<le> x p" "x p < 2 ^ 256" "0 \<le> y p" "y p < 2 ^ 256"
  shows "length (point_to_hex p) = 130" "take 2 (point_to_hex p) = ''04''"
  using length_hex_le [OF assms(2,3)] length_hex_le [OF assms(4,5)] assms(1)
  by (simp_all add: point_to_hex_def Let_def)

lemma hex_to_point_rejects_encoded:
  assumes "\<not> is_infinity p" "0 \<le> x p" "x p < 2 ^ 256" "0 \<le> y p" "y p < 2 ^ 256"
  shows "hex_to_point (point_to_hex p) pt = (False, pt)"
  by (simp add: hex_to_point_def point_to_hex_shape [OF assms] Let_def)

lemma G_on_curve: "point_is_on_curve SECP256K1_G"
  by code_simp

lemma G_coordinates:
  "0 \<le> x SECP256K1_G" "x SECP256K1_G < 2 ^ 256" "0 \<le> y SECP256K1_G" "y SECP256K1_G < 2 ^ 256"
  by (simp_all add: SECP256K1_G_def ECPoint_xy_def)

lemma compressed_x1_shape:
  "length compressed_x1 = 66" "take 2 compressed_x1 = ''02''" "compressed_x1 ! 0 = CHR ''0''"
  "hex_to_bigint (drop 2 compressed_x1) = 1"
  by (simp_all add: compressed_x1_def numeral_eq_Suc hex_to_bigint_def c_str_def mpz_set_str16_def Let_def
      isspace_def is_hex_def digit_value_def hex_value_def)

lemma not_on_curve_1_1: "\<not> point_is_on_curve (ECPoint_xy 1 1)"
  by (simp add: point_is_on_curve_def ECPoint_xy_def Let_def bigint_defs bigint_compare_def
      SECP256K1_P_def SECP256K1_B_def)

text \<open>
  Claim C3, at the failing inputs. The generator is on the curve and \<open>point_to_hex\<close>
  writes it as 130 characters that begin with \<open>04\<close>; \<open>hex_to_point\<close> rejects that
  string, and \<open>initialize\<close> fails on it. The compressed form of the point of the curve
  with first coordinate 1 (66 characters that begin with \<open>02\<close>) is accepted, by
  \<open>hex_to_point\<close> and by \<open>initialize\<close>, and decoded to the point \<open>(1, 1)\<close>, which is
  not on the curve.
\<close>

theorem public_key_decoding:
  "point_is_on_curve SECP256K1_G
   \<and> length (point_to_hex SECP256K1_G) = 130 \<and> take 2 (point_to_hex SECP256K1_G) = ''04''
   \<and> hex_to_point (point_to_hex SECP256K1_G) ECPoint_default = (False, ECPoint_default)
   \<and> \<not> fst (initialize KangarooSolver_new (point_to_hex SECP256K1_G) ''0'' ''100'' 2 8)
   \<and> point_is_on_curve point_x1 \<and> x point_x1 = 1
   \<and> length compressed_x1 = 66 \<and> take 2 compressed_x1 = ''02''
   \<and> hex_to_point compressed_x1 ECPoint_default = (True, ECPoint_xy 1 1)
   \<and> \<not> point_is_on_curve (ECPoint_xy 1 1)
   \<and> fst (initialize KangarooSolver_new compressed_x1 ''0'' ''100'' 2 8)"
proof -
  note shape = point_to_hex_shape [OF G_finite G_coordinates]
  have r: "hex_to_point (point_to_hex SECP256K1_G) ECPoint_default = (False, ECPoint_default)"
    by (rule hex_to_point_rejects_encoded [OF G_finite G_coordinates])
  have c: "hex_to_point compressed_x1 ECPoint_default = (True, ECPoint_xy 1 1)"
    by (simp add: hex_to_point_def compressed_x1_shape Let_def ECPoint_default_def ECPoint_xy_def
        bigint_defs)
  have i1: "\<not> fst (initialize KangarooSolver_new (point_to_hex SECP256K1_G) ''0'' ''100'' 2 8)"
    by (simp add: initialize_def Let_def KangarooSolver_new_def r)
  have i2: "fst (initialize KangarooSolver_new compressed_x1 ''0'' ''100'' 2 8)"
    by (simp add: initialize_def Let_def KangarooSolver_new_def c hex_small)
  show ?thesis
    using G_on_curve shape r c i1 i2 not_on_curve_1_1 point_x1_facts compressed_x1_shape by simp
qed

lemma load_checkpoint_keeps_solver: "snd (load_checkpoint solver fs filename) = solver"
  by (simp add: load_checkpoint_def split: prod.splits)

lemma checkpoint_of_fixed:
  "cp_distinguished_bits (checkpoint_of solver now time_t) = 20"
  "dp_points (checkpoint_of solver now time_t) = []"
  "dp_distances (checkpoint_of solver now time_t) = []"
  "dp_is_tame (checkpoint_of solver now time_t) = []"
  "dp_timestamps (checkpoint_of solver now time_t) = []"
  "cp_num_threads (checkpoint_of solver now time_t) = (if running solver then num_threads solver else 0)"
  "cp_distinguished_points_count (checkpoint_of solver now time_t) = total_distinguished_points solver"
  by (simp_all add: checkpoint_of_def Let_def CheckpointData_new_def get_stats_def KangarooStats_zero_def)

lemma engine3_fields:
  "\<not> running engine3" "distinguished_bits engine3 = 8" "num_threads engine3 = 2"
  "total_distinguished_points engine3 = 1"
  "distinguished_points engine3 (point_to_string G30) = Some tame_entry"
  by (simp_all add: engine3_def stop_def engine2_fields engine2_eq engine1_fields)

lemma saved_file:
  "fst (save_checkpoint engine3 empty_fs ''checkpoint.json'' 160 1700000000)"
  "files saved_fs ''checkpoint.json''
     = Some (JsonDocument \<lparr>j_version = cp_version (checkpoint_of engine3 160 1700000000),
         j_timestamp = cp_timestamp (checkpoint_of engine3 160 1700000000),
         j_total_jumps = cp_total_jumps (checkpoint_of engine3 160 1700000000),
         j_distinguished_points_count = 1,
         j_range_start = cp_range_start (checkpoint_of engine3 160 1700000000),
         j_range_end = cp_range_end (checkpoint_of engine3 160 1700000000),
         j_num_threads = 0, j_distinguished_bits = 20, j_distinguished_points = []\<rparr>)"
  by (simp_all add: saved_fs_def save_checkpoint_def write_json_checkpoint_def Let_def
      checkpoint_of_fixed engine3_fields empty_fs_def backup_checkpoint_def)

text \<open>
  Claim C4, at the failing input. The stopped engine has eight distinguished bits, two
  threads and one entry in its table. Saving succeeds and the file is read back, but the
  data read has 20 distinguished bits, 0 threads and no entry at all, while its count of
  distinguished points is 1; \<open>load_checkpoint\<close> returns true on a newly initialised
  engine and leaves it with an empty table and a count of 0.
\<close>

theorem checkpoint_round_trip_loses_state:
  "fst (save_checkpoint engine3 empty_fs ''checkpoint.json'' 160 1700000000)
   \<and> read_json_checkpoint CheckpointData_new saved_fs ''checkpoint.json'' = (True, loaded_data)
   \<and> distinguished_bits engine3 = 8 \<and> cp_distinguished_bits loaded_data = 20
   \<and> num_threads engine3 = 2 \<and> cp_num_threads loaded_data = 0
   \<and> distinguished_points engine3 (point_to_string G30) = Some tame_entry
   \<and> total_distinguished_points engine3 = 1
   \<and> cp_distinguished_points_count loaded_data = 1
   \<and> dp_points loaded_data = [] \<and> dp_distances loaded_data = []
   \<and> dp_is_tame loaded_data = [] \<and> dp_timestamps loaded_data = []
   \<and> load_checkpoint engine0 saved_fs ''checkpoint.json'' = (True, engine0)
   \<and> distinguished_points engine0 = Map.empty
   \<and> total_distinguished_points engine0 = 0"
proof -
  have r: "fst (read_json_checkpoint CheckpointData_new saved_fs ''checkpoint.json'')"
    by (simp add: read_json_checkpoint_def saved_file)
  have l: "cp_distinguished_bits loaded_data = 20" "cp_num_threads loaded_data = 0"
    "cp_distinguished_points_count loaded_data = 1"
    "dp_points loaded_data = []" "dp_distances loaded_data = []"
    "dp_is_tame loaded_data = []" "dp_timestamps loaded_data = []"
    by (simp_all add: loaded_data_def read_json_checkpoint_def saved_file)
  have rd: "read_json_checkpoint CheckpointData_new saved_fs ''checkpoint.json'' = (True, loaded_data)"
    using r by (simp add: loaded_data_def prod_eq_iff)
  have ld: "load_checkpoint engine0 saved_fs ''checkpoint.json'' = (True, engine0)"
    by (simp add: load_checkpoint_def saved_file rd)
  have e0: "distinguished_points engine0 = Map.empty" "total_distinguished_points engine0 = 0"
    by (simp_all add: initialize_True(1) [OF init30] precompute_jumps_fields precompute_jumps_def
        Let_def KangarooSolver_new_def)
  show ?thesis
    using saved_file(1) rd l ld e0 engine3_fields by simp
qed

end
